theory Spec2Isabelle
  imports Main "HOL-Library.List_Lexorder" "HOL-Library.FSet" "HOL-Library.Log_Nat"
    "HOL-Library.Sublist"
begin

section \<open>Python values shared by the lesson scripts\<close>

text \<open>
  A Python \<open>str\<close> is a sequence of Unicode code points; it is modelled as the list of
  their numbers (the \<open>ord\<close> of each character), so that \<open>strip\<close>, comparison and
  truthiness (\<open>s \<noteq> []\<close>) are the ones of Python. \<open>ascii\<close> embeds an ASCII literal.
\<close>

type_synonym pystr = "int list"

definition ascii :: "string \<Rightarrow> pystr" where
  "ascii cs = map of_char cs"

text \<open>The code points that \<open>str.strip()\<close> removes (those with \<open>str.isspace\<close>).\<close>

definition py_isspace :: "int \<Rightarrow> bool" where
  "py_isspace c \<longleftrightarrow>
     (9 \<le> c \<and> c \<le> 13) \<or> (28 \<le> c \<and> c \<le> 32) \<or> c = 133 \<or> c = 160 \<or> c = 5760 \<or>
     (8192 \<le> c \<and> c \<le> 8202) \<or> c = 8232 \<or> c = 8233 \<or> c = 8239 \<or> c = 8287 \<or> c = 12288"

definition strip :: "pystr \<Rightarrow> pystr" where
  "strip s = rev (dropWhile py_isspace (rev (dropWhile py_isspace s)))"

datatype py_error = ValueError | EOFError | ZeroDivisionError | KeyError

section \<open>lesson3/lesson3_4.py: the console guessing game\<close>

text \<open>
  What the game writes to standard output, one constructor per \<open>print\<close> or \<open>input\<close>
  prompt of the source.
\<close>

datatype out_line =
    PrintTarget int
  | PrintBanner
  | PromptRange int int
  | PrintHit
  | PrintCount int
  | PrintSmaller
  | PrintBigger
  | PrintRangeHint
  | PromptAgain
  | PrintGameOver

text \<open>The local variables \<open>min\<close>, \<open>max\<close>, \<open>count\<close> of \<open>play_game\<close> and the output so far.\<close>

record game =
  min_v :: int
  max_v :: int
  count :: int
  printed :: "out_line list"

definition say :: "out_line list \<Rightarrow> game \<Rightarrow> game" where
  "say ls g = g\<lparr>printed := printed g @ ls\<rparr>"

text \<open>
  One pass through the body of \<open>while(True)\<close> after \<open>keyin = int(input(...))\<close> has
  returned \<open>keyin\<close>: \<open>Stop\<close> is the \<open>break\<close>, \<open>Continue\<close> the next iteration.
\<close>

datatype turn = Continue game | Stop game

definition take_turn :: "int \<Rightarrow> game \<Rightarrow> int \<Rightarrow> turn" where
  "take_turn target g keyin =
     (let g1 = g\<lparr>count := count g + 1\<rparr> in
      if keyin \<ge> min_v g1 \<and> keyin \<le> max_v g1 then
        (if target = keyin then Stop (say [PrintHit, PrintCount (count g1)] g1)
         else if keyin > target then
           Continue (say [PrintCount (count g1)] ((say [PrintSmaller] g1)\<lparr>max_v := keyin - 1\<rparr>))
         else if keyin < target then
           Continue (say [PrintCount (count g1)] ((say [PrintBigger] g1)\<lparr>min_v := keyin + 1\<rparr>))
         else Continue (say [PrintCount (count g1)] g1))
      else Continue (say [PrintRangeHint] g1))"

text \<open>
  The loop reads the lines of standard input in order. \<open>int_of\<close> is the built-in
  \<open>int()\<close> on a \<open>str\<close>: \<open>None\<close> where it raises \<open>ValueError\<close>. Neither
  \<open>play_game\<close> nor \<open>main\<close> has a \<open>try\<close>, so an exception ends the loop and is returned
  (\<open>Some e\<close>) together with the state reached and the unread lines; at the end of input
  \<open>input()\<close> raises \<open>EOFError\<close>.
\<close>

fun guess_loop ::
  "(pystr \<Rightarrow> int option) \<Rightarrow> int \<Rightarrow> game \<Rightarrow> pystr list \<Rightarrow> py_error option \<times> game \<times> pystr list"
where
  "guess_loop int_of target g [] = (Some EOFError, say [PromptRange (min_v g) (max_v g)] g, [])"
| "guess_loop int_of target g (line # rest) =
     (let g0 = say [PromptRange (min_v g) (max_v g)] g in
      case int_of line of
        None \<Rightarrow> (Some ValueError, g0, rest)
      | Some keyin \<Rightarrow>
          (case take_turn target g0 keyin of
             Stop g' \<Rightarrow> (None, g', rest)
           | Continue g' \<Rightarrow> guess_loop int_of target g' rest))"

text \<open>\<open>target\<close> is the value drawn by \<open>random.randint(min, max)\<close>, with \<open>1 \<le> target \<le> 100\<close>.\<close>

definition play_game ::
  "(pystr \<Rightarrow> int option) \<Rightarrow> int \<Rightarrow> pystr list \<Rightarrow> py_error option \<times> game \<times> pystr list"
where
  "play_game int_of target lines =
     guess_loop int_of target
       \<lparr>min_v = 1, max_v = 100, count = 0, printed = [PrintTarget target, PrintBanner]\<rparr> lines"

lemma guess_loop_rest:
  "guess_loop int_of target g lines = (r, g', rest) \<Longrightarrow> length rest \<le> length lines"
proof (induction lines arbitrary: g)
  case Nil
  then show ?case by simp
next
  case (Cons line lines)
  then show ?case
    by (auto simp: Let_def split: option.splits turn.splits dest!: Cons.IH)
qed

text \<open>
  \<open>main\<close>: games are played until the answer to the question after a game is \<open>n\<close>.
  \<open>randint n\<close> is the target drawn in the \<open>n\<close>-th game; the result is the exception
  that ended the process, if any, and everything printed.
\<close>

function main_loop ::
  "(pystr \<Rightarrow> int option) \<Rightarrow> (nat \<Rightarrow> int) \<Rightarrow> nat \<Rightarrow> out_line list \<Rightarrow> pystr list
     \<Rightarrow> py_error option \<times> out_line list"
where
  "main_loop int_of randint n out lines =
     (case play_game int_of (randint n) lines of
        (Some e, g, rest) \<Rightarrow> (Some e, out @ printed g)
      | (None, g, rest) \<Rightarrow>
          (case rest of
             [] \<Rightarrow> (Some EOFError, out @ printed g @ [PromptAgain])
           | is_play_again # rest' \<Rightarrow>
               if is_play_again = ascii ''n''
               then (None, out @ printed g @ [PromptAgain, PrintGameOver])
               else main_loop int_of randint (Suc n) (out @ printed g @ [PromptAgain]) rest'))"
  by pat_completeness auto
termination
  apply (relation "measure (\<lambda>(int_of, randint, n, out, lines). length lines)")
   apply simp
  apply (auto simp: play_game_def dest!: guess_loop_rest [OF sym])
  done

definition main :: "(pystr \<Rightarrow> int option) \<Rightarrow> (nat \<Rightarrow> int) \<Rightarrow> pystr list \<Rightarrow> py_error option \<times> out_line list" where
  "main int_of randint lines = main_loop int_of randint 0 [] lines"

text \<open>
  A reading of \<open>int()\<close> for lines of ASCII characters: surrounding whitespace, an
  optional sign, decimal digits with single underscores between them. It is the instance
  of \<open>int_of\<close> used where a concrete run is evaluated.
\<close>

definition digit_of :: "int \<Rightarrow> int option" where
  "digit_of c = (if 48 \<le> c \<and> c \<le> 57 then Some (c - 48) else None)"

fun digits_value :: "int \<Rightarrow> bool \<Rightarrow> pystr \<Rightarrow> int option" where
  "digits_value acc after_digit [] = (if after_digit then Some acc else None)"
| "digits_value acc after_digit (c # cs) =
     (case digit_of c of
        Some d \<Rightarrow> digits_value (10 * acc + d) True cs
      | None \<Rightarrow> if c = 95 \<and> after_digit then digits_value acc False cs else None)"

definition ascii_int :: "pystr \<Rightarrow> int option" where
  "ascii_int s =
     (case strip s of
        [] \<Rightarrow> None
      | c # cs \<Rightarrow>
          if c = 45 then map_option uminus (digits_value 0 False cs)
          else if c = 43 then digits_value 0 False cs
          else digits_value 0 False (c # cs))"













section \<open>Values shared by the rate and stock applications\<close>

text \<open>
  A scraped record is a \<open>dict\<close> from field name to text. \<open>get_or d k v\<close> is
  \<open>d.get(k, v)\<close>. The field names and the placeholder of the rate table are written as
  their code points: U+5E63 U+5225 (currency), U+672C U+884C U+5373 U+671F followed by
  U+8CB7 U+5165 (spot buy) or U+8CE3 U+51FA (spot sell), and U+66AB U+505C U+4EA4 U+6613
  (trading suspended).
\<close>

type_synonym pydict = "pystr \<rightharpoonup> pystr"

definition get_or :: "pydict \<Rightarrow> pystr \<Rightarrow> pystr \<Rightarrow> pystr" where
  "get_or d k v = (case d k of None \<Rightarrow> v | Some x \<Rightarrow> x)"

definition k_currency :: pystr where
  "k_currency = [24163, 21029]"

definition k_buy :: pystr where
  "k_buy = [26412, 34892, 21363, 26399, 36023, 20837]"

definition k_sell :: pystr where
  "k_sell = [26412, 34892, 21363, 26399, 36067, 20986]"

definition suspended :: pystr where
  "suspended = [26283, 20572, 20132, 26131]"

definition k_stock_code :: pystr where
  "k_stock_code = ascii ''stock_code''"

text \<open>
  The message boxes of \<open>tkinter.messagebox\<close>. A window keeps the list of the boxes it
  has shown, oldest first; the texts are named by what they say.
\<close>

datatype message =
    LoadingPleaseWait
  | NoRateData
  | FetchFailed pystr
  | EnterAmount
  | AmountNotPositive
  | ChooseCurrency
  | RateNotFound pystr
  | InvalidAmount
  | CalcFailed py_error
  | WatchlistEmpty
  | UpdatingPleaseWait
  | UpdateFailed pystr
  | SelectStockFirst
  | AlreadyWatched pystr
  | AddedToWatchlist pystr

datatype dialog = ShowInfo message | ShowWarning message | ShowError message

datatype btn_state = Normal | Disabled

datatype status_text =
    NoStatus
  | StatusLoading
  | StatusSuccess
  | StatusReady
  | StatusUpdating nat
  | StatusDone
  | StatusFailed

record window =
  update_btn :: btn_state
  status_label :: status_text
  dialogs :: "dialog list"

definition messagebox :: "dialog \<Rightarrow> ('a window_scheme) \<Rightarrow> ('a window_scheme)" where
  "messagebox d w = w\<lparr>dialogs := dialogs w @ [d]\<rparr>"

section \<open>Python floats\<close>

text \<open>
  A \<open>float\<close> is an IEEE binary64 value: a sign and a magnitude that is zero or a
  rational with a 53-bit significand, or an infinity, or a NaN. \<open>round64\<close> rounds a
  non-negative rational to the nearest such magnitude, ties to the even significand.
  \<open>ilog2 m\<close> is the binary exponent of a positive \<open>m\<close>, the \<open>e\<close> with
  \<open>2 powi e \<le> m < 2 powi (e + 1)\<close>; below exponent -1022 the spacing is that of the
  subnormal numbers, and a rounded value with an exponent above 1023 is overflow
  (\<open>None\<close>).
\<close>

datatype pyfloat = Finite bool rat | Infinity bool | NaN

definition ilog2 :: "rat \<Rightarrow> int" where
  "ilog2 m = (let (p, q) = quotient_of m; k = bitlen p - bitlen q
              in if 2 powi k \<le> m then k else k - 1)"

definition round_half_even :: "rat \<Rightarrow> int" where
  "round_half_even x =
     (let f = \<lfloor>x\<rfloor>; d = x - of_int f
      in if d < 1 / 2 then f else if 1 / 2 < d then f + 1 else if even f then f else f + 1)"

definition round64 :: "rat \<Rightarrow> rat option" where
  "round64 m =
     (if m = 0 then Some 0
      else let e = max (ilog2 m) (- 1022);
               ulp = 2 powi (e - 52);
               r = of_int (round_half_even (m / ulp)) * ulp
           in if 1024 \<le> ilog2 r then None else Some r)"

text \<open>\<open>a / b\<close> on floats: a zero divisor raises, the rest is the IEEE quotient.\<close>

fun float_div :: "pyfloat \<Rightarrow> pyfloat \<Rightarrow> py_error + pyfloat" where
  "float_div a (Finite s2 m2) =
     (if m2 = 0 then Inl ZeroDivisionError
      else case a of
        NaN \<Rightarrow> Inr NaN
      | Infinity s1 \<Rightarrow> Inr (Infinity (s1 \<noteq> s2))
      | Finite s1 m1 \<Rightarrow>
          (case round64 (m1 / m2) of
             None \<Rightarrow> Inr (Infinity (s1 \<noteq> s2))
           | Some r \<Rightarrow> Inr (Finite (s1 \<noteq> s2) r)))"
| "float_div a NaN = Inr NaN"
| "float_div a (Infinity s2) =
     (case a of
        NaN \<Rightarrow> Inr NaN
      | Infinity s1 \<Rightarrow> Inr NaN
      | Finite s1 m1 \<Rightarrow> Inr (Finite (s1 \<noteq> s2) 0))"

text \<open>\<open>x <= 0\<close>.\<close>

fun float_le_zero :: "pyfloat \<Rightarrow> bool" where
  "float_le_zero (Finite s m) = (s \<or> m = 0)"
| "float_le_zero (Infinity s) = s"
| "float_le_zero NaN = False"

text \<open>
  The text of \<open>f"{x:.2f}"\<close>: the sign and the number of hundredths, the exact value
  rounded to two decimals with ties to even, or \<open>inf\<close>, \<open>-inf\<close>, \<open>nan\<close>.
\<close>

datatype float_text = Decimal2 bool int | TextInf bool | TextNaN

fun format_2f :: "pyfloat \<Rightarrow> float_text" where
  "format_2f (Finite s m) = Decimal2 s (round_half_even (100 * m))"
| "format_2f (Infinity s) = TextInf s"
| "format_2f NaN = TextNaN"

text \<open>
  A reading of \<open>float()\<close> for plain ASCII decimals: surrounding whitespace, an optional
  sign, digits, and optionally a point followed by digits. It is the instance of
  \<open>float_of\<close> used where a concrete run is evaluated.
\<close>

fun decimal_digits :: "pystr \<Rightarrow> int option" where
  "decimal_digits [] = Some 0"
| "decimal_digits (c # cs) =
     (if 48 \<le> c \<and> c \<le> 57
      then map_option (\<lambda>v. (c - 48) * 10 ^ length cs + v) (decimal_digits cs)
      else None)"

definition decimal_value :: "pystr \<Rightarrow> rat option" where
  "decimal_value s =
     (let whole = takeWhile (\<lambda>c. c \<noteq> 46) s; rest = dropWhile (\<lambda>c. c \<noteq> 46) s
      in if whole = [] then None
         else case decimal_digits whole of
           None \<Rightarrow> None
         | Some w \<Rightarrow>
            (if rest = [] then Some (of_int w)
             else if tl rest = [] then None
             else map_option (\<lambda>f. of_int w + of_int f / 10 ^ length (tl rest)) (decimal_digits (tl rest))))"

definition to_float :: "bool \<Rightarrow> rat \<Rightarrow> pyfloat" where
  "to_float s m = (case round64 m of None \<Rightarrow> Infinity s | Some r \<Rightarrow> Finite s r)"

definition ascii_float :: "pystr \<Rightarrow> pyfloat option" where
  "ascii_float s =
     (case strip s of
        [] \<Rightarrow> None
      | c # cs \<Rightarrow>
          if c = 45 then map_option (to_float True) (decimal_value cs)
          else if c = 43 then map_option (to_float False) (decimal_value cs)
          else map_option (to_float False) (decimal_value (c # cs)))"

section \<open>lesson8/main.py: the exchange-rate application\<close>

subsection \<open>fetch\_exchange\_rates\<close>

text \<open>
  What the crawl hands to the parsing part of \<open>fetch_exchange_rates\<close>: an exception
  anywhere in the \<open>try\<close>, no extracted content, content that is not JSON, or the list
  \<open>rates\<close> whose items are dicts (with the \<open>str()\<close> of their values) or something
  else.
\<close>

datatype json_item = JsonDict pydict | JsonOther

datatype crawl = CrawlRaised pystr | NoContent | BadJson | Rates "json_item list"

text \<open>The text between the first \<open>(\<close> and the next \<open>(\<close> or \<open>)\<close>: \<open>split("(")[1].split(")")[0]\<close>.\<close>

definition currency_code_of :: "pystr \<Rightarrow> pystr" where
  "currency_code_of currency_full =
     (if 40 \<in> set currency_full \<and> 41 \<in> set currency_full
      then takeWhile (\<lambda>c. c \<noteq> 41) (takeWhile (\<lambda>c. c \<noteq> 40) (tl (dropWhile (\<lambda>c. c \<noteq> 40) currency_full)))
      else currency_full)"

fun clean_rates :: "json_item list \<Rightarrow> pydict list" where
  "clean_rates [] = []"
| "clean_rates (JsonOther # rates) = clean_rates rates"
| "clean_rates (JsonDict rate # rates) =
     (let currency_full = strip (get_or rate k_currency []);
          buy = strip (get_or rate k_buy []);
          sell = strip (get_or rate k_sell [])
      in if buy = ascii ''-'' \<and> sell = ascii ''-'' then clean_rates rates
         else let currency_code = currency_code_of currency_full
              in if currency_code \<noteq> [] \<and> buy \<noteq> [] \<and> sell \<noteq> [] \<and> buy \<noteq> ascii ''-'' \<and> sell \<noteq> ascii ''-''
                 then [k_currency \<mapsto> currency_code, k_buy \<mapsto> buy, k_sell \<mapsto> sell] # clean_rates rates
                 else clean_rates rates)"

fun fetch_exchange_rates :: "crawl \<Rightarrow> pydict list option" where
  "fetch_exchange_rates (Rates rates) =
     (let cleaned_rates = clean_rates rates in if cleaned_rates \<noteq> [] then Some cleaned_rates else None)"
| "fetch_exchange_rates BadJson = None"
| "fetch_exchange_rates NoContent = None"
| "fetch_exchange_rates (CrawlRaised e) = None"

subsection \<open>The window\<close>

text \<open>
  The text of the result label: the hint shown at start, or the conversion with the
  amount, the two rates and the two quotients as they are formatted.
\<close>

record conversion =
  conv_amount :: float_text
  conv_currency :: pystr
  conv_buy_rate :: pyfloat
  conv_buy_result :: float_text
  conv_sell_rate :: pyfloat
  conv_sell_result :: float_text
  conv_time :: nat

datatype result_view = ResultHint | ResultText conversion

datatype cursor_kind = CursorDefault | CursorWatch

text \<open>
  The callbacks handed to \<open>self.after\<close>: the two the worker thread schedules and the
  one that clears the success note after three seconds.
\<close>

datatype callback = UpdateUI "pydict list option" | ShowErrorLater pystr | ClearStatus

text \<open>
  The fields of \<open>ExchangeRateApp\<close> and of its widgets. \<open>after_queue\<close> holds the
  callbacks scheduled and not yet run; \<open>fetching\<close> counts the worker threads whose
  \<open>fetch_exchange_rates\<close> has not ended, \<open>finishing\<close> those that have scheduled their
  callback and not yet run their \<open>finally\<close>.
\<close>

record exchange_app = window +
  exchange_data :: "pydict list option"
  last_update :: "nat option"
  is_loading :: bool
  cursor :: cursor_kind
  time_label :: "nat option"
  tree :: "(pystr \<times> pystr \<times> pystr) list"
  currency_combo_values :: "pystr list"
  currency_combo_text :: pystr
  twd_entry :: pystr
  result_label :: result_view
  after_queue :: "callback list"
  fetching :: nat
  finishing :: nat

definition show_loading :: "exchange_app \<Rightarrow> exchange_app" where
  "show_loading s = s\<lparr>status_label := StatusLoading, update_btn := Disabled, cursor := CursorWatch\<rparr>"

definition hide_loading :: "exchange_app \<Rightarrow> exchange_app" where
  "hide_loading s = s\<lparr>status_label := NoStatus, update_btn := Normal, cursor := CursorDefault\<rparr>"

text \<open>
  \<open>_fetch_data_thread\<close>: the refusal while loading, else the flag, the loading state
  and the start of the thread.
\<close>

definition fetch_data_thread :: "exchange_app \<Rightarrow> exchange_app" where
  "fetch_data_thread s =
     (if is_loading s then messagebox (ShowInfo LoadingPleaseWait) s
      else (show_loading (s\<lparr>is_loading := True\<rparr>))\<lparr>fetching := fetching s + 1\<rparr>)"

text \<open>
  \<open>run_async\<close> in the worker thread. The fetch returns data or raises; the thread
  schedules the matching callback (\<open>worker_deliver\<close>) and then runs its \<open>finally\<close>
  (\<open>worker_finally\<close>). The two are separate steps: the window may act in between.
\<close>

datatype fetch_result = Returned "pydict list option" | Raised pystr

fun callback_of :: "fetch_result \<Rightarrow> callback" where
  "callback_of (Returned data) = UpdateUI data"
| "callback_of (Raised e) = ShowErrorLater e"

definition worker_deliver :: "fetch_result \<Rightarrow> exchange_app \<Rightarrow> exchange_app" where
  "worker_deliver r s =
     s\<lparr>after_queue := after_queue s @ [callback_of r],
       fetching := fetching s - 1, finishing := finishing s + 1\<rparr>"

definition worker_finally :: "exchange_app \<Rightarrow> exchange_app" where
  "worker_finally s = s\<lparr>is_loading := False, finishing := finishing s - 1\<rparr>"

definition show_error :: "message \<Rightarrow> exchange_app \<Rightarrow> exchange_app" where
  "show_error m s = messagebox (ShowError m) ((hide_loading s)\<lparr>is_loading := False\<rparr>)"

definition tree_row :: "pydict \<Rightarrow> pystr \<times> pystr \<times> pystr" where
  "tree_row rate = (get_or rate k_currency [], get_or rate k_buy suspended, get_or rate k_sell suspended)"

definition update_treeview :: "exchange_app \<Rightarrow> exchange_app" where
  "update_treeview s =
     s\<lparr>tree := (case exchange_data s of None \<Rightarrow> [] | Some data \<Rightarrow> map tree_row data)\<rparr>"

text \<open>The filter of \<open>_update_currency_combo\<close>: \<open>if currency and buy and sell\<close>.\<close>

definition tradable :: "pydict \<Rightarrow> bool" where
  "tradable rate \<longleftrightarrow>
     strip (get_or rate k_currency []) \<noteq> [] \<and> strip (get_or rate k_buy []) \<noteq> [] \<and>
     strip (get_or rate k_sell []) \<noteq> []"

definition update_currency_combo :: "exchange_app \<Rightarrow> exchange_app" where
  "update_currency_combo s =
     (let available_currencies =
            (case exchange_data s of
               None \<Rightarrow> []
             | Some data \<Rightarrow> map (\<lambda>rate. strip (get_or rate k_currency [])) (filter tradable data));
          s1 = s\<lparr>currency_combo_values := available_currencies\<rparr>
      in if available_currencies \<noteq> [] then s1\<lparr>currency_combo_text := hd available_currencies\<rparr> else s1)"

text \<open>\<open>_update_ui_with_data\<close>; \<open>now\<close> is the reading of \<open>datetime.now()\<close>.\<close>

definition update_ui_with_data :: "nat \<Rightarrow> pydict list option \<Rightarrow> exchange_app \<Rightarrow> exchange_app" where
  "update_ui_with_data now data s =
     (let s1 = hide_loading s in
      if (case data of None \<Rightarrow> True | Some records \<Rightarrow> length records = 0)
      then messagebox (ShowError NoRateData) (s1\<lparr>is_loading := False\<rparr>)
      else
        let s2 = s1\<lparr>exchange_data := data, last_update := Some now\<rparr>;
            s3 = update_currency_combo (update_treeview s2);
            s4 = s3\<lparr>time_label := last_update s3\<rparr>;
            s5 = s4\<lparr>status_label := StatusSuccess, after_queue := after_queue s4 @ [ClearStatus]\<rparr>
        in s5\<lparr>is_loading := False\<rparr>)"

fun run_callback :: "nat \<Rightarrow> callback \<Rightarrow> exchange_app \<Rightarrow> exchange_app" where
  "run_callback now (UpdateUI data) s = update_ui_with_data now data s"
| "run_callback now (ShowErrorLater e) s = show_error (FetchFailed e) s"
| "run_callback now ClearStatus s = s\<lparr>status_label := NoStatus\<rparr>"

definition find_rate_by_currency :: "exchange_app \<Rightarrow> pystr \<Rightarrow> pydict option" where
  "find_rate_by_currency s currency =
     (case exchange_data s of
        None \<Rightarrow> None
      | Some data \<Rightarrow> find (\<lambda>rate. rate k_currency = Some currency) data)"

text \<open>
  \<open>_calculate_conversion\<close>. \<open>float_of\<close> is the built-in \<open>float()\<close> on a \<open>str\<close>,
  \<open>None\<close> where it raises \<open>ValueError\<close>. The whole body stands in a \<open>try\<close> whose
  handlers show a message box for \<open>ValueError\<close> and for every other \<open>Exception\<close>, so
  the function always returns.
\<close>

definition calculate_conversion ::
  "(pystr \<Rightarrow> pyfloat option) \<Rightarrow> nat \<Rightarrow> exchange_app \<Rightarrow> exchange_app"
where
  "calculate_conversion float_of now s =
     (let twd_amount_str = strip (twd_entry s) in
      if twd_amount_str = [] then messagebox (ShowWarning EnterAmount) s
      else case float_of twd_amount_str of
        None \<Rightarrow> messagebox (ShowError InvalidAmount) s
      | Some twd_amount \<Rightarrow>
          if float_le_zero twd_amount then messagebox (ShowWarning AmountNotPositive) s
          else let selected_currency = currency_combo_text s in
            if selected_currency = [] then messagebox (ShowWarning ChooseCurrency) s
            else case find_rate_by_currency s selected_currency of
              None \<Rightarrow> messagebox (ShowError (RateNotFound selected_currency)) s
            | Some rate_data \<Rightarrow>
               (case rate_data k_buy of
                  None \<Rightarrow> messagebox (ShowError (CalcFailed KeyError)) s
                | Some buy_text \<Rightarrow>
               (case float_of buy_text of
                  None \<Rightarrow> messagebox (ShowError InvalidAmount) s
                | Some buy_rate \<Rightarrow>
               (case rate_data k_sell of
                  None \<Rightarrow> messagebox (ShowError (CalcFailed KeyError)) s
                | Some sell_text \<Rightarrow>
               (case float_of sell_text of
                  None \<Rightarrow> messagebox (ShowError InvalidAmount) s
                | Some sell_rate \<Rightarrow>
               (case float_div twd_amount buy_rate of
                  Inl e \<Rightarrow> messagebox (ShowError (CalcFailed e)) s
                | Inr buy_result \<Rightarrow>
               (case float_div twd_amount sell_rate of
                  Inl e \<Rightarrow> messagebox (ShowError (CalcFailed e)) s
                | Inr sell_result \<Rightarrow>
                    s\<lparr>result_label := ResultText
                        \<lparr>conv_amount = format_2f twd_amount,
                         conv_currency = selected_currency,
                         conv_buy_rate = buy_rate,
                         conv_buy_result = format_2f buy_result,
                         conv_sell_rate = sell_rate,
                         conv_sell_result = format_2f sell_result,
                         conv_time = now\<rparr>\<rparr>)))))))"

text \<open>
  \<open>__init__\<close>: the fields and widgets as \<open>_setup_ui\<close> leaves them, then
  \<open>_load_initial_data\<close>, which calls \<open>_fetch_data_thread\<close>.
\<close>

definition setup_ui :: exchange_app where
  "setup_ui =
     \<lparr>update_btn = Normal, status_label = NoStatus, dialogs = [],
      exchange_data = None, last_update = None, is_loading = False, cursor = CursorDefault,
      time_label = None, tree = [], currency_combo_values = [], currency_combo_text = [],
      twd_entry = ascii ''1000'', result_label = ResultHint,
      after_queue = [], fetching = 0, finishing = 0\<rparr>"

definition new_exchange_app :: exchange_app where
  "new_exchange_app = fetch_data_thread setup_ui"

text \<open>
  The states the running application passes through. The update button calls
  \<open>_fetch_data_thread\<close>, and a Tk button calls nothing while it is disabled; a worker
  thread delivers and finishes; the event loop runs a scheduled callback; the user
  computes a conversion, types an amount or picks a currency.
\<close>

inductive reachable8 :: "exchange_app \<Rightarrow> bool" where
  r8_init: "reachable8 new_exchange_app"
| r8_click: "reachable8 s \<Longrightarrow> update_btn s = Normal \<Longrightarrow> reachable8 (fetch_data_thread s)"
| r8_deliver: "reachable8 s \<Longrightarrow> 0 < fetching s \<Longrightarrow> reachable8 (worker_deliver r s)"
| r8_finally: "reachable8 s \<Longrightarrow> 0 < finishing s \<Longrightarrow> reachable8 (worker_finally s)"
| r8_callback: "reachable8 s \<Longrightarrow> cb \<in> set (after_queue s) \<Longrightarrow>
     reachable8 (run_callback now cb (s\<lparr>after_queue := remove1 cb (after_queue s)\<rparr>))"
| r8_calculate: "reachable8 s \<Longrightarrow> reachable8 (calculate_conversion float_of now s)"
| r8_type: "reachable8 s \<Longrightarrow> reachable8 (s\<lparr>twd_entry := txt\<rparr>)"
| r8_select: "reachable8 s \<Longrightarrow> v \<in> set (currency_combo_values s) \<Longrightarrow>
     reachable8 (s\<lparr>currency_combo_text := v\<rparr>)"

section \<open>lesson7\_1/main.py: the rate dashboard\<close>

text \<open>
  A row of the data frame that \<open>clean_rate_data\<close> builds: the currency, the two rate
  texts and the two parsed rates. A cell without a rate is \<open>None\<close> or, in a column of
  floats, a NaN; \<open>notna\<close> is false of both.
\<close>

record rate_row =
  row_currency :: pystr
  row_buy :: pystr
  row_sell :: pystr
  row_buy_value :: "pyfloat option"
  row_sell_value :: "pyfloat option"


text \<open>
  \<open>float(text) if text != suspended else None\<close> inside the \<open>try\<close>: the outer \<open>None\<close> is
  the \<open>ValueError\<close> that makes the loop skip the record.
\<close>

definition rate_value :: "(pystr \<Rightarrow> pyfloat option) \<Rightarrow> pystr \<Rightarrow> pyfloat option option" where
  "rate_value float_of text =
     (if text \<noteq> suspended then map_option Some (float_of text) else Some None)"

fun clean_rate_data :: "(pystr \<Rightarrow> pyfloat option) \<Rightarrow> pydict list \<Rightarrow> rate_row list" where
  "clean_rate_data float_of [] = []"
| "clean_rate_data float_of (rate # rates) =
     (let currency = strip (get_or rate k_currency []);
          buy_rate = strip (get_or rate k_buy []);
          sell_rate = strip (get_or rate k_sell [])
      in if currency = [] then clean_rate_data float_of rates
         else if sublist suspended buy_rate \<or> sublist suspended sell_rate
         then clean_rate_data float_of rates
         else
           let buy_rate = (if buy_rate = [] then suspended else buy_rate);
               sell_rate = (if sell_rate = [] then suspended else sell_rate)
           in case rate_value float_of buy_rate of
                None \<Rightarrow> clean_rate_data float_of rates
              | Some buy_float \<Rightarrow>
                 (case rate_value float_of sell_rate of
                    None \<Rightarrow> clean_rate_data float_of rates
                  | Some sell_float \<Rightarrow>
                      if buy_float \<noteq> None \<or> sell_float \<noteq> None
                      then \<lparr>row_currency = currency, row_buy = buy_rate, row_sell = sell_rate,
                            row_buy_value = buy_float, row_sell_value = sell_float\<rparr>
                           # clean_rate_data float_of rates
                      else clean_rate_data float_of rates))"


text \<open>
  What the calculator column shows for the selected currency: the metric with the
  quotient at two decimals and the rate, the note that trading is suspended, or nothing
  when no row has the currency. \<open>if sell_rate\<close> lets every float but zero pass.
\<close>

datatype metric_view = Metric float_text pyfloat | SuspendedNote | NoRow | ScriptError py_error

fun float_truthy :: "pyfloat \<Rightarrow> bool" where
  "float_truthy (Finite s m) = (m \<noteq> 0)"
| "float_truthy (Infinity s) = True"
| "float_truthy NaN = True"

definition converted_amount :: "pyfloat \<Rightarrow> rate_row list \<Rightarrow> pystr \<Rightarrow> metric_view" where
  "converted_amount twd_amount rates_df selected_currency =
     (case find (\<lambda>row. row_currency row = selected_currency) rates_df of
        None \<Rightarrow> NoRow
      | Some currency_row \<Rightarrow>
         (case row_sell_value currency_row of
            None \<Rightarrow> SuspendedNote
          | Some sell_rate \<Rightarrow>
              if float_truthy sell_rate
              then (case float_div twd_amount sell_rate of
                      Inl e \<Rightarrow> ScriptError e
                    | Inr converted \<Rightarrow> Metric (format_2f converted) sell_rate)
              else SuspendedNote))"

section \<open>lesson8\_1/main.py: the stock watchlist application\<close>

text \<open>
  What the right panel holds: the note that nothing is watched, or one card per watched
  stock, built from the cached record of the stock or, without one, a card that says the
  data is awaited. The label texts of a card are read off its record.
\<close>

datatype card = EmptyLabel | StockCard pystr pydict | WaitingCard pystr

text \<open>The tuples on the result queue: \<open>('success', results)\<close> and \<open>('error', str(e))\<close>.\<close>

datatype outcome = Success "pydict list" | Failure pystr

text \<open>
  The fields of \<open>StockMonitorApp\<close> and of its widgets. \<open>result_queue\<close> is the
  \<open>queue.Queue\<close>, oldest entry first; \<open>workers\<close> are the threads that run
  \<open>run_crawler_in_thread\<close> and have not put their result yet, each with the stock codes
  it was started with; \<open>update_timer_id\<close> tells whether the minute timer is set.
\<close>

record stock_app = window +
  watchlist :: "pystr fset"
  stock_data_cache :: "pystr \<rightharpoonup> pydict"
  auto_update_enabled :: bool
  update_timer_id :: bool
  is_updating :: bool
  result_queue :: "outcome list"
  last_update_label :: "nat option"
  stocks_container :: "card list"
  workers :: "pystr fset list"

definition create_stock_card :: "stock_app \<Rightarrow> pystr \<Rightarrow> card" where
  "create_stock_card s stock_code =
     (case stock_data_cache s stock_code of
        None \<Rightarrow> WaitingCard stock_code
      | Some stock_data \<Rightarrow>
          if stock_data = Map.empty then WaitingCard stock_code else StockCard stock_code stock_data)"

definition update_watchlist_display :: "stock_app \<Rightarrow> stock_app" where
  "update_watchlist_display s =
     s\<lparr>stocks_container :=
         (if watchlist s = {||} then [EmptyLabel]
          else map (create_stock_card s) (sorted_list_of_fset (watchlist s)))\<rparr>"

text \<open>\<open>add_to_watchlist\<close>; \<open>selection\<close> is the code of the selected row of the list box.\<close>

definition add_to_watchlist :: "pystr option \<Rightarrow> stock_app \<Rightarrow> stock_app" where
  "add_to_watchlist selection s =
     (case selection of
        None \<Rightarrow> messagebox (ShowWarning SelectStockFirst) s
      | Some stock_code \<Rightarrow>
          if stock_code |\<in>| watchlist s then messagebox (ShowInfo (AlreadyWatched stock_code)) s
          else update_watchlist_display
                 (messagebox (ShowInfo (AddedToWatchlist stock_code))
                    (s\<lparr>watchlist := finsert stock_code (watchlist s)\<rparr>)))"

definition remove_from_watchlist :: "pystr \<Rightarrow> stock_app \<Rightarrow> stock_app" where
  "remove_from_watchlist stock_code s =
     (if stock_code |\<in>| watchlist s
      then update_watchlist_display
             (s\<lparr>watchlist := watchlist s |-| {|stock_code|},
                stock_data_cache := (stock_data_cache s)(stock_code := None)\<rparr>)
      else s)"

definition start_update :: "stock_app \<Rightarrow> stock_app" where
  "start_update s =
     s\<lparr>is_updating := True, update_btn := Disabled,
       status_label := StatusUpdating (fcard (watchlist s)),
       workers := workers s @ [watchlist s]\<rparr>"

definition manual_update :: "stock_app \<Rightarrow> stock_app" where
  "manual_update s =
     (if watchlist s = {||} then messagebox (ShowInfo WatchlistEmpty) s
      else if is_updating s then messagebox (ShowInfo UpdatingPleaseWait) s
      else start_update s)"

text \<open>
  \<open>run_crawler_in_thread\<close>: the thread ends by putting one tuple on the queue, the
  results of the crawl or the text of the exception it raised.
\<close>

definition run_crawler_in_thread :: "pystr fset \<Rightarrow> outcome \<Rightarrow> stock_app \<Rightarrow> stock_app" where
  "run_crawler_in_thread stock_codes msg s =
     s\<lparr>workers := remove1 stock_codes (workers s), result_queue := result_queue s @ [msg]\<rparr>"

definition store :: "pydict \<Rightarrow> (pystr \<rightharpoonup> pydict) \<Rightarrow> (pystr \<rightharpoonup> pydict)" where
  "store stock_data cache =
     (case stock_data k_stock_code of
        None \<Rightarrow> cache
      | Some stock_code \<Rightarrow> if stock_code \<noteq> [] then cache(stock_code \<mapsto> stock_data) else cache)"

definition on_update_complete :: "nat \<Rightarrow> pydict list \<Rightarrow> stock_app \<Rightarrow> stock_app" where
  "on_update_complete now results s =
     (let s1 = update_watchlist_display (s\<lparr>stock_data_cache := fold store results (stock_data_cache s)\<rparr>)
      in s1\<lparr>is_updating := False, update_btn := Normal, status_label := StatusDone,
            last_update_label := Some now\<rparr>)"

definition on_update_error :: "pystr \<Rightarrow> stock_app \<Rightarrow> stock_app" where
  "on_update_error error_msg s =
     messagebox (ShowError (UpdateFailed error_msg))
       (s\<lparr>is_updating := False, update_btn := Normal, status_label := StatusFailed\<rparr>)"

fun handle :: "nat \<Rightarrow> outcome \<Rightarrow> stock_app \<Rightarrow> stock_app" where
  "handle now (Success data) s = on_update_complete now data s"
| "handle now (Failure data) s = on_update_error data s"

lemma handle_result_queue: "result_queue (handle now msg s) = result_queue s"
  by (cases msg)
    (simp_all add: on_update_complete_def on_update_error_def update_watchlist_display_def
      messagebox_def Let_def)

text \<open>
  \<open>check_queue\<close>: \<open>get_nowait\<close> takes the oldest entry until the queue is empty
  (\<open>queue.Empty\<close> ends the loop); \<open>now\<close> is the clock reading during the poll.
\<close>

function check_queue :: "nat \<Rightarrow> stock_app \<Rightarrow> stock_app" where
  "check_queue now s =
     (case result_queue s of
        [] \<Rightarrow> s
      | msg # queue \<Rightarrow> check_queue now (handle now msg (s\<lparr>result_queue := queue\<rparr>)))"
  by pat_completeness auto
termination
  by (relation "measure (\<lambda>(now, s). length (result_queue s))")
    (simp_all add: handle_result_queue)

declare check_queue.simps [simp del]

definition schedule_auto_update :: "stock_app \<Rightarrow> stock_app" where
  "schedule_auto_update s =
     (let s1 = (if auto_update_enabled s \<and> watchlist s \<noteq> {||} \<and> \<not> is_updating s
                then start_update s else s)
      in if auto_update_enabled s1 then s1\<lparr>update_timer_id := True\<rparr> else s1)"

definition toggle_auto_update :: "bool \<Rightarrow> stock_app \<Rightarrow> stock_app" where
  "toggle_auto_update auto_update_var s =
     (let s1 = s\<lparr>auto_update_enabled := auto_update_var\<rparr>
      in if auto_update_enabled s1 then schedule_auto_update s1
         else if update_timer_id s1 then s1\<lparr>update_timer_id := False\<rparr> else s1)"

definition new_stock_app :: stock_app where
  "new_stock_app =
     \<lparr>update_btn = Normal, status_label = StatusReady, dialogs = [],
      watchlist = {||}, stock_data_cache = Map.empty, auto_update_enabled = False,
      update_timer_id = False, is_updating = False, result_queue = [],
      last_update_label = None, stocks_container = [EmptyLabel], workers = []\<rparr>"

text \<open>
  The states the running application passes through: the user acts on the widgets, the
  minute timer fires, a worker thread ends, the queue is polled.
\<close>

inductive reachable81 :: "stock_app \<Rightarrow> bool" where
  r81_init: "reachable81 new_stock_app"
| r81_add: "reachable81 s \<Longrightarrow> reachable81 (add_to_watchlist selection s)"
| r81_remove: "reachable81 s \<Longrightarrow> reachable81 (remove_from_watchlist stock_code s)"
| r81_manual: "reachable81 s \<Longrightarrow> reachable81 (manual_update s)"
| r81_toggle: "reachable81 s \<Longrightarrow> reachable81 (toggle_auto_update v s)"
| r81_timer: "reachable81 s \<Longrightarrow> reachable81 (schedule_auto_update s)"
| r81_worker: "reachable81 s \<Longrightarrow> stock_codes \<in> set (workers s) \<Longrightarrow>
     reachable81 (run_crawler_in_thread stock_codes msg s)"
| r81_poll: "reachable81 s \<Longrightarrow> reachable81 (check_queue now s)"

subsection \<open>Polling the result queue\<close>

lemma handle_queue_update:
  "handle now msg (s\<lparr>result_queue := q\<rparr>) = (handle now msg s)\<lparr>result_queue := q\<rparr>"
  by (cases msg)
    (simp_all add: on_update_complete_def on_update_error_def update_watchlist_display_def
      create_stock_card_def messagebox_def Let_def)

text \<open>
  The reading of a poll in the words of the specification: the queued outcomes are
  handled one after the other, the oldest first.
\<close>

definition process_in_order :: "nat \<Rightarrow> outcome list \<Rightarrow> stock_app \<Rightarrow> stock_app" where
  "process_in_order now msgs s = foldl (\<lambda>st msg. handle now msg st) s msgs"

lemma check_queue_fifo_aux:
  "result_queue s = msgs \<Longrightarrow> check_queue now s = (process_in_order now msgs s)\<lparr>result_queue := []\<rparr>"
proof (induction msgs arbitrary: s)
  case Nil
  then have "check_queue now s = s" by (subst check_queue.simps) simp
  with Nil show ?case by (simp add: process_in_order_def)
next
  case (Cons msg msgs)
  let ?s1 = "handle now msg (s\<lparr>result_queue := msgs\<rparr>)"
  have q: "result_queue ?s1 = msgs" by (simp add: handle_result_queue)
  have "check_queue now s = check_queue now ?s1"
    using Cons.prems by (subst check_queue.simps) simp
  also have "\<dots> = (process_in_order now msgs ?s1)\<lparr>result_queue := []\<rparr>"
    using Cons.IH [OF q] .
  also have "?s1 = (handle now msg s)\<lparr>result_queue := msgs\<rparr>"
    by (rule handle_queue_update)
  also have "(process_in_order now msgs ((handle now msg s)\<lparr>result_queue := msgs\<rparr>))\<lparr>result_queue := []\<rparr>
      = (process_in_order now msgs (handle now msg s))\<lparr>result_queue := []\<rparr>"
  proof -
    have "\<And>t q. (process_in_order now msgs (t\<lparr>result_queue := q\<rparr>)) = (process_in_order now msgs t)\<lparr>result_queue := q\<rparr>"
      unfolding process_in_order_def
      by (induction msgs) (simp_all add: handle_queue_update)
    then show ?thesis by simp
  qed
  finally show ?case by (simp add: process_in_order_def)
qed

fun failures :: "outcome list \<Rightarrow> pystr list" where
  "failures [] = []"
| "failures (Failure e # ms) = e # failures ms"
| "failures (Success d # ms) = failures ms"

lemma handle_dialogs:
  "dialogs (handle now msg s) = dialogs s @ map (\<lambda>e. ShowError (UpdateFailed e)) (failures [msg])"
  by (cases msg)
    (simp_all add: on_update_complete_def on_update_error_def update_watchlist_display_def
      messagebox_def Let_def)

lemma failures_append: "failures (xs @ ys) = failures xs @ failures ys"
  by (induction xs rule: failures.induct) auto

lemma process_dialogs:
  "dialogs (process_in_order now msgs s) = dialogs s @ map (\<lambda>e. ShowError (UpdateFailed e)) (failures msgs)"
proof (induction msgs arbitrary: s rule: rev_induct)
  case Nil
  then show ?case by (simp add: process_in_order_def)
next
  case (snoc m ms)
  have "process_in_order now (ms @ [m]) s = handle now m (process_in_order now ms s)"
    by (simp add: process_in_order_def)
  then show ?case using snoc by (simp add: handle_dialogs failures_append)
qed

text \<open>
  Claim C4. One call of \<open>check_queue\<close> handles every outcome that is on the queue, the
  oldest first, and returns with the queue empty: its result is the state reached by
  handling the queued outcomes in arrival order, and the error boxes it shows are those
  of the queued failures, in that order.
\<close>

theorem check_queue_drains_fifo:
  "check_queue now s = (process_in_order now (result_queue s) s)\<lparr>result_queue := []\<rparr> \<and>
   result_queue (check_queue now s) = [] \<and>
   dialogs (check_queue now s) = dialogs s @ map (\<lambda>e. ShowError (UpdateFailed e)) (failures (result_queue s))"
proof -
  have eq: "check_queue now s = (process_in_order now (result_queue s) s)\<lparr>result_queue := []\<rparr>"
    by (rule check_queue_fifo_aux [OF refl])
  show ?thesis
    by (simp add: eq process_dialogs)
qed


section \<open>One fetch at a time\<close>

text \<open>
  The callbacks of worker threads that wait in \<open>after_queue\<close>, and what ties them to
  the update button: while the button is enabled no fetch runs and no such callback
  waits, while it is disabled exactly one fetch runs or one callback waits.
\<close>

definition pending :: "callback list \<Rightarrow> nat" where
  "pending q = length (filter (\<lambda>cb. cb \<noteq> ClearStatus) q)"

definition inv8 :: "exchange_app \<Rightarrow> bool" where
  "inv8 s \<longleftrightarrow>
     fetching s + pending (after_queue s) = (if update_btn s = Normal then 0 else 1)"

lemma pending_remove1_ClearStatus: "pending (remove1 ClearStatus q) = pending q"
  by (induction q) (auto simp: pending_def)

lemma pending_pos: "cb \<in> set q \<Longrightarrow> cb \<noteq> ClearStatus \<Longrightarrow> 0 < pending q"
  by (induction q) (auto simp: pending_def)

lemma pending_remove1:
  "cb \<in> set q \<Longrightarrow> cb \<noteq> ClearStatus \<Longrightarrow> Suc (pending (remove1 cb q)) = pending q"
  by (induction q) (auto simp: pending_def)

lemma callback_of_data: "callback_of r \<noteq> ClearStatus"
  by (cases r) simp_all

lemma pending_append: "pending (q @ r) = pending q + pending r"
  by (simp add: pending_def)

lemma calculate_conversion_frame:
  "update_btn (calculate_conversion float_of now s) = update_btn s \<and>
   fetching (calculate_conversion float_of now s) = fetching s \<and>
   after_queue (calculate_conversion float_of now s) = after_queue s \<and>
   is_loading (calculate_conversion float_of now s) = is_loading s"
  by (simp add: calculate_conversion_def messagebox_def Let_def split: option.splits sum.splits)

lemma run_callback_data:
  "cb \<noteq> ClearStatus \<Longrightarrow>
   update_btn (run_callback now cb s) = Normal \<and> fetching (run_callback now cb s) = fetching s \<and>
   pending (after_queue (run_callback now cb s)) = pending (after_queue s) \<and>
   \<not> is_loading (run_callback now cb s)"
  by (cases cb)
    (auto simp: update_ui_with_data_def show_error_def hide_loading_def messagebox_def Let_def
      update_treeview_def update_currency_combo_def pending_def)

lemma reachable8_inv: "reachable8 s \<Longrightarrow> inv8 s"
proof (induction rule: reachable8.induct)
  case r8_init
  then show ?case
    by (simp add: inv8_def new_exchange_app_def setup_ui_def fetch_data_thread_def show_loading_def pending_def)
next
  case (r8_click s)
  then show ?case
    by (simp add: inv8_def fetch_data_thread_def show_loading_def messagebox_def)
next
  case (r8_deliver s r)
  then show ?case
  proof (cases "update_btn s")
    case Normal
    with r8_deliver show ?thesis by (simp add: inv8_def)
  next
    case Disabled
    with r8_deliver have "fetching s = 1" "pending (after_queue s) = 0"
      by (simp_all add: inv8_def)
    with Disabled show ?thesis
      by (simp add: inv8_def worker_deliver_def pending_append) (simp add: pending_def callback_of_data)
  qed
next
  case (r8_finally s)
  then show ?case by (simp add: inv8_def worker_finally_def)
next
  case (r8_callback s cb now)
  show ?case
  proof (cases "cb = ClearStatus")
    case True
    with r8_callback show ?thesis
      by (simp add: inv8_def pending_remove1_ClearStatus)
  next
    case False
    let ?s0 = "s\<lparr>after_queue := remove1 cb (after_queue s)\<rparr>"
    from False r8_callback have p: "0 < pending (after_queue s)" by (simp add: pending_pos)
    with r8_callback.IH have "fetching s = 0" "pending (after_queue s) = 1"
      by (simp_all add: inv8_def split: if_splits)
    with False r8_callback.hyps pending_remove1 [of cb "after_queue s"]
    have "pending (after_queue ?s0) = 0" "fetching ?s0 = 0"
      by simp_all
    with run_callback_data [OF False, of now ?s0] show ?thesis
      by (simp add: inv8_def)
  qed
next
  case (r8_calculate s float_of now)
  then show ?case by (simp add: inv8_def calculate_conversion_frame)
next
  case (r8_type s t)
  then show ?case by (simp add: inv8_def)
next
  case (r8_select s v)
  then show ?case by (simp add: inv8_def)
qed

lemma reachable8_one_fetch: "reachable8 s \<Longrightarrow> fetching s \<le> 1"
  by (drule reachable8_inv) (simp add: inv8_def split: if_splits)

text \<open>
  In the stock application the flag \<open>is_updating\<close> is set exactly while one worker
  runs or one outcome waits on the queue.
\<close>

definition inv81 :: "stock_app \<Rightarrow> bool" where
  "inv81 s \<longleftrightarrow> length (workers s) + length (result_queue s) = (if is_updating s then 1 else 0)"

lemma update_watchlist_display_frame:
  "workers (update_watchlist_display s) = workers s \<and>
   result_queue (update_watchlist_display s) = result_queue s \<and>
   is_updating (update_watchlist_display s) = is_updating s"
  by (simp add: update_watchlist_display_def)

lemma handle_frame: "workers (handle now msg s) = workers s \<and> \<not> is_updating (handle now msg s)"
  by (cases msg)
    (simp_all add: on_update_complete_def on_update_error_def update_watchlist_display_def
      messagebox_def Let_def)

lemma process_in_order_frame:
  "workers (process_in_order now msgs s) = workers s \<and>
   (msgs \<noteq> [] \<longrightarrow> \<not> is_updating (process_in_order now msgs s)) \<and>
   (msgs = [] \<longrightarrow> process_in_order now msgs s = s)"
  by (induction msgs arbitrary: s rule: rev_induct) (simp_all add: process_in_order_def handle_frame)

lemma check_queue_inv: "inv81 s \<Longrightarrow> inv81 (check_queue now s)"
proof -
  assume i: "inv81 s"
  have eq: "check_queue now s = (process_in_order now (result_queue s) s)\<lparr>result_queue := []\<rparr>"
    by (rule check_queue_fifo_aux [OF refl])
  show ?thesis
  proof (cases "result_queue s = []")
    case True
    with i eq process_in_order_frame [of now "result_queue s" s] show ?thesis
      by (simp add: inv81_def)
  next
    case False
    then have "0 < length (result_queue s)" by simp
    with i have "workers s = []" by (cases "workers s") (auto simp: inv81_def split: if_splits)
    with False eq process_in_order_frame [of now "result_queue s" s] show ?thesis
      by (simp add: inv81_def)
  qed
qed

lemma schedule_auto_update_inv: "inv81 s \<Longrightarrow> inv81 (schedule_auto_update s)"
  by (auto simp: inv81_def schedule_auto_update_def start_update_def Let_def)

lemma reachable81_inv: "reachable81 s \<Longrightarrow> inv81 s"
proof (induction rule: reachable81.induct)
  case r81_init
  then show ?case by (simp add: inv81_def new_stock_app_def)
next
  case (r81_add s selection)
  then show ?case
    by (auto simp: inv81_def add_to_watchlist_def messagebox_def update_watchlist_display_def split: option.splits)
next
  case (r81_remove s stock_code)
  then show ?case
    by (auto simp: inv81_def remove_from_watchlist_def update_watchlist_display_def)
next
  case (r81_manual s)
  then show ?case
    by (auto simp: inv81_def manual_update_def start_update_def messagebox_def)
next
  case (r81_toggle s v)
  then show ?case
    using schedule_auto_update_inv [of "s\<lparr>auto_update_enabled := v\<rparr>"]
    by (auto simp: inv81_def toggle_auto_update_def Let_def)
next
  case (r81_timer s)
  then show ?case by (simp add: schedule_auto_update_inv)
next
  case (r81_worker s stock_codes msg)
  from r81_worker.hyps have "0 < length (workers s)" by (auto simp: length_pos_if_in_set)
  with r81_worker show ?case
    by (cases "result_queue s")
      (auto simp: inv81_def run_crawler_in_thread_def length_remove1 split: if_splits)
next
  case (r81_poll s now)
  then show ?case by (simp add: check_queue_inv)
qed

lemma reachable81_one_worker: "reachable81 s \<Longrightarrow> length (workers s) \<le> 1"
  by (drule reachable81_inv) (simp add: inv81_def split: if_splits)


text \<open>
  A stock application that watches one stock and has started an update, and the rate
  application right after its start: the states at which the runs below are evaluated.
\<close>

definition watching_2330 :: stock_app where
  "watching_2330 = manual_update (add_to_watchlist (Some (ascii ''2330'')) new_stock_app)"

lemma reachable81_watching_2330: "reachable81 watching_2330"
  unfolding watching_2330_def by (intro r81_manual r81_add r81_init)

lemma watching_2330_busy: "is_updating watching_2330 \<and> watchlist watching_2330 = {|ascii ''2330''|}"
  by (simp add: watching_2330_def manual_update_def add_to_watchlist_def new_stock_app_def
      messagebox_def update_watchlist_display_def start_update_def)

lemma new_exchange_app_busy: "is_loading new_exchange_app \<and> \<not> is_loading setup_ui \<and>
  fetching new_exchange_app = 1 \<and> fetching setup_ui = 0"
  by (simp add: new_exchange_app_def fetch_data_thread_def setup_ui_def show_loading_def)

text \<open>
  Claim C1. A refresh request made while the busy flag is set starts no worker and
  changes nothing but the list of message boxes, to which it adds one informational
  box: \<open>_fetch_data_thread\<close> in the rate application, \<open>manual_update\<close> in the stock
  application. A call that starts a worker (there also the one of the minute timer)
  found the flag clear. In every state the applications reach, at most one fetch is in
  flight.
\<close>

theorem busy_flag_refuses_second_fetch:
  "(is_loading s \<longrightarrow>
      fetch_data_thread s = s\<lparr>dialogs := dialogs s @ [ShowInfo LoadingPleaseWait]\<rparr>) \<and>
   (fetching (fetch_data_thread s') \<noteq> fetching s' \<longrightarrow> \<not> is_loading s') \<and>
   (is_updating t \<longrightarrow>
      manual_update t =
        t\<lparr>dialogs := dialogs t @
            [ShowInfo (if watchlist t = {||} then WatchlistEmpty else UpdatingPleaseWait)]\<rparr>) \<and>
   (workers (manual_update t') \<noteq> workers t' \<or> workers (schedule_auto_update t') \<noteq> workers t'
      \<longrightarrow> \<not> is_updating t') \<and>
   (reachable8 u \<longrightarrow> fetching u \<le> 1) \<and>
   (reachable81 v \<longrightarrow> length (workers v) \<le> 1)"
proof (intro conjI impI)
  assume "is_loading s"
  then show "fetch_data_thread s = s\<lparr>dialogs := dialogs s @ [ShowInfo LoadingPleaseWait]\<rparr>"
    by (simp add: fetch_data_thread_def messagebox_def)
next
  assume "fetching (fetch_data_thread s') \<noteq> fetching s'"
  then show "\<not> is_loading s'"
    by (auto simp: fetch_data_thread_def messagebox_def)
next
  assume "is_updating t"
  then show "manual_update t =
        t\<lparr>dialogs := dialogs t @
            [ShowInfo (if watchlist t = {||} then WatchlistEmpty else UpdatingPleaseWait)]\<rparr>"
    by (simp add: manual_update_def messagebox_def)
next
  assume "workers (manual_update t') \<noteq> workers t' \<or> workers (schedule_auto_update t') \<noteq> workers t'"
  then show "\<not> is_updating t'"
    by (auto simp: manual_update_def schedule_auto_update_def messagebox_def Let_def split: if_splits)
next
  assume "reachable8 u"
  then show "fetching u \<le> 1" by (rule reachable8_one_fetch)
next
  assume "reachable81 v"
  then show "length (workers v) \<le> 1" by (rule reachable81_one_worker)
qed

theorem busy_flag_refuses_second_fetch_witness:
  "is_loading new_exchange_app \<and>
   fetch_data_thread new_exchange_app =
     new_exchange_app\<lparr>dialogs := dialogs new_exchange_app @ [ShowInfo LoadingPleaseWait]\<rparr> \<and>
   fetching (fetch_data_thread setup_ui) \<noteq> fetching setup_ui \<and> \<not> is_loading setup_ui \<and>
   is_updating watching_2330 \<and>
   manual_update watching_2330 =
     watching_2330\<lparr>dialogs := dialogs watching_2330 @ [ShowInfo UpdatingPleaseWait]\<rparr> \<and>
   workers (manual_update (add_to_watchlist (Some (ascii ''2330'')) new_stock_app))
     \<noteq> workers (add_to_watchlist (Some (ascii ''2330'')) new_stock_app) \<and>
   \<not> is_updating (add_to_watchlist (Some (ascii ''2330'')) new_stock_app) \<and>
   reachable8 new_exchange_app \<and> fetching new_exchange_app \<le> 1 \<and>
   reachable81 watching_2330 \<and> length (workers watching_2330) \<le> 1"
proof -
  have w: "workers (manual_update (add_to_watchlist (Some (ascii ''2330'')) new_stock_app))
     \<noteq> workers (add_to_watchlist (Some (ascii ''2330'')) new_stock_app)"
    by (simp add: manual_update_def add_to_watchlist_def new_stock_app_def
      messagebox_def update_watchlist_display_def start_update_def)
  have f: "fetching (fetch_data_thread setup_ui) \<noteq> fetching setup_ui"
    using new_exchange_app_busy by (simp add: new_exchange_app_def)
  show ?thesis
    using busy_flag_refuses_second_fetch [of new_exchange_app setup_ui watching_2330
        "add_to_watchlist (Some (ascii ''2330'')) new_stock_app" new_exchange_app watching_2330]
      new_exchange_app_busy watching_2330_busy reachable81_watching_2330 r8_init w f
    by simp
qed


section \<open>The busy flag over one run\<close>








section \<open>Applying an outcome\<close>

text \<open>
  What each window shows of the fetched data: the cached records, their rendering and the
  time of the last update.
\<close>

definition displayed8 ::
  "exchange_app \<Rightarrow> pydict list option \<times> (pystr \<times> pystr \<times> pystr) list \<times> pystr list \<times> pystr \<times> nat option \<times> nat option" where
  "displayed8 s =
     (exchange_data s, tree s, currency_combo_values s, currency_combo_text s, last_update s, time_label s)"


lemma clean_rates_nonempty_or_Nil: "fetch_exchange_rates c \<noteq> Some []"
  by (cases c) (simp_all add: Let_def)

text \<open>
  Claim C2. In the rate application a fetch that returned \<open>None\<close> or an empty list is
  handled as a failure: \<open>_update_ui_with_data\<close> ends the loading state, clears the
  flag and shows the error box, and the records, the table, the dropdown and the update
  time stay as they were. \<open>fetch_exchange_rates\<close> itself never returns an empty list:
  it returns \<open>None\<close> when no record is left after cleaning.
\<close>

theorem empty_result_is_failure:
  "update_ui_with_data now None s =
     (hide_loading s)\<lparr>is_loading := False, dialogs := dialogs s @ [ShowError NoRateData]\<rparr> \<and>
   update_ui_with_data now (Some []) s =
     (hide_loading s)\<lparr>is_loading := False, dialogs := dialogs s @ [ShowError NoRateData]\<rparr> \<and>
   displayed8 (update_ui_with_data now None s) = displayed8 s \<and>
   displayed8 (update_ui_with_data now (Some []) s) = displayed8 s \<and>
   fetch_exchange_rates c \<noteq> Some [] \<and>
   fetch_exchange_rates (Rates []) = None"
  by (simp add: update_ui_with_data_def hide_loading_def messagebox_def displayed8_def
      clean_rates_nonempty_or_Nil)


text \<open>The stock code a card is for, and the records the cards show, top to bottom.\<close>

fun card_code :: "card \<Rightarrow> pystr" where
  "card_code EmptyLabel = []"
| "card_code (StockCard stock_code stock_data) = stock_code"
| "card_code (WaitingCard stock_code) = stock_code"

fun shown_records :: "card list \<Rightarrow> pydict list" where
  "shown_records [] = []"
| "shown_records (StockCard stock_code stock_data # cards) = stock_data # shown_records cards"
| "shown_records (w # cards) = shown_records cards"

lemma card_code_create: "card_code (create_stock_card s c) = c"
  by (simp add: create_stock_card_def split: option.splits)

lemma store_lookup:
  "store d cache c =
     (if d k_stock_code = Some c \<and> c \<noteq> [] then Some d else cache c)"
  by (auto simp: store_def split: option.splits)

lemma fold_store_lookup:
  "fold store results cache c =
     (if c = [] then cache c
      else case find (\<lambda>d. d k_stock_code = Some c) (rev results) of
             None \<Rightarrow> cache c
           | Some d \<Rightarrow> Some d)"
proof (induction results arbitrary: cache rule: rev_induct)
  case Nil
  then show ?case by simp
next
  case (snoc d ds)
  have "fold store (ds @ [d]) cache c = store d (fold store ds cache) c" by simp
  also have "\<dots> = (if d k_stock_code = Some c \<and> c \<noteq> [] then Some d else fold store ds cache c)"
    by (rule store_lookup)
  finally show ?case using snoc [of cache] by (cases "c = []") simp_all
qed

text \<open>
  A stock application that watches 2330 and 2317 and has started an update, and the
  results of that update in the order the worker was given the codes.
\<close>

definition two_stocks :: stock_app where
  "two_stocks =
     start_update (add_to_watchlist (Some (ascii ''2317''))
       (add_to_watchlist (Some (ascii ''2330'')) new_stock_app))"

definition two_results :: "pydict list" where
  "two_results = [[k_stock_code \<mapsto> ascii ''2330''], [k_stock_code \<mapsto> ascii ''2317'']]"

lemma code_2317_less: "ascii ''2317'' < ascii ''2330''"
  by code_simp

lemma code_2317_neq: "ascii ''2317'' \<noteq> ascii ''2330''"
  by code_simp

lemma sorted_two: "sorted_list_of_fset {|ascii ''2317'', ascii ''2330''|} = [ascii ''2317'', ascii ''2330'']"
  by code_simp

lemma two_stocks_watchlist: "watchlist two_stocks = {|ascii ''2317'', ascii ''2330''|}"
  using code_2317_neq
  by (simp add: two_stocks_def start_update_def add_to_watchlist_def new_stock_app_def
      messagebox_def update_watchlist_display_def)

lemma two_stocks_cache: "stock_data_cache two_stocks = Map.empty"
  using code_2317_neq
  by (simp add: two_stocks_def start_update_def add_to_watchlist_def new_stock_app_def
      messagebox_def update_watchlist_display_def)

lemma two_results_shown:
  "stocks_container (on_update_complete now two_results two_stocks) =
     [StockCard (ascii ''2317'') [k_stock_code \<mapsto> ascii ''2317''],
      StockCard (ascii ''2330'') [k_stock_code \<mapsto> ascii ''2330'']]"
proof -
  have e: "ascii ''2317'' \<noteq> []" "ascii ''2330'' \<noteq> []" by (simp_all add: ascii_def)
  have m: "[k_stock_code \<mapsto> ascii ''2317''] \<noteq> Map.empty" "[k_stock_code \<mapsto> ascii ''2330''] \<noteq> Map.empty"
    by simp_all
  show ?thesis
    using code_2317_neq code_2317_neq [symmetric] e m
    by (simp add: on_update_complete_def update_watchlist_display_def two_stocks_watchlist
        two_stocks_cache sorted_two create_stock_card_def two_results_def store_def Let_def)
qed

definition usd_rate :: pydict where
  "usd_rate = [k_currency \<mapsto> ascii ''USD'', k_buy \<mapsto> ascii ''30.1'', k_sell \<mapsto> ascii ''30.5'']"

text \<open>
  Claim C5 as stated fails in the stock application: the cards are laid out by stock code,
  not in the order of the results.
\<close>

theorem success_shows_records_counterexample:
  "two_results \<noteq> [] \<and>
   shown_records (stocks_container (on_update_complete 7 two_results two_stocks)) \<noteq> two_results"
proof -
  have "[k_stock_code \<mapsto> ascii ''2317''] \<noteq> [k_stock_code \<mapsto> ascii ''2330'']"
    using code_2317_neq by (metis map_upd_eqD1)
  then show ?thesis
    by (simp add: two_results_shown) (simp add: two_results_def)
qed

text \<open>
  Claim C5, amended. In the rate application a non-empty list of records replaces the
  table by exactly those records, in the order supplied, and stamps the update time. In
  the stock application a success outcome stores each record in the cache under its stock
  code (the last record of a code wins, the entries of other codes stay), shows one card
  per watched stock in ascending order of the codes, each built from the cache, and
  stamps the update time.
\<close>

theorem success_replaces_display:
  "(data \<noteq> [] \<longrightarrow>
      (let s' = update_ui_with_data now (Some data) s
       in tree s' = map tree_row data \<and> exchange_data s' = Some data \<and>
          last_update s' = Some now \<and> time_label s' = Some now)) \<and>
   (let t' = on_update_complete now' results t
    in (\<forall>c. stock_data_cache t' c =
              (if c = [] then stock_data_cache t c
               else case find (\<lambda>d. d k_stock_code = Some c) (rev results) of
                      None \<Rightarrow> stock_data_cache t c
                    | Some d \<Rightarrow> Some d)) \<and>
       stocks_container t' =
         (if watchlist t = {||} then [EmptyLabel]
          else map (create_stock_card t') (sorted_list_of_fset (watchlist t))) \<and>
       (watchlist t \<noteq> {||} \<longrightarrow>
          map card_code (stocks_container t') = sorted_list_of_fset (watchlist t)) \<and>
       last_update_label t' = Some now')"
proof (intro conjI impI)
  assume "data \<noteq> []"
  then show "let s' = update_ui_with_data now (Some data) s
       in tree s' = map tree_row data \<and> exchange_data s' = Some data \<and>
          last_update s' = Some now \<and> time_label s' = Some now"
    by (simp add: update_ui_with_data_def Let_def update_treeview_def update_currency_combo_def
        hide_loading_def)
next
  let ?t' = "on_update_complete now' results t"
  have cache: "stock_data_cache ?t' = fold store results (stock_data_cache t)"
    by (simp add: on_update_complete_def update_watchlist_display_def Let_def)
  have cont: "stocks_container ?t' =
         (if watchlist t = {||} then [EmptyLabel]
          else map (create_stock_card ?t') (sorted_list_of_fset (watchlist t)))"
    by (simp add: on_update_complete_def update_watchlist_display_def Let_def create_stock_card_def)
  have codes: "watchlist t \<noteq> {||} \<longrightarrow>
          map card_code (stocks_container ?t') = sorted_list_of_fset (watchlist t)"
    by (simp add: cont card_code_create comp_def)
  have stamp: "last_update_label ?t' = Some now'"
    by (simp add: on_update_complete_def Let_def)
  show "let t' = on_update_complete now' results t
    in (\<forall>c. stock_data_cache t' c =
              (if c = [] then stock_data_cache t c
               else case find (\<lambda>d. d k_stock_code = Some c) (rev results) of
                      None \<Rightarrow> stock_data_cache t c
                    | Some d \<Rightarrow> Some d)) \<and>
       stocks_container t' =
         (if watchlist t = {||} then [EmptyLabel]
          else map (create_stock_card t') (sorted_list_of_fset (watchlist t))) \<and>
       (watchlist t \<noteq> {||} \<longrightarrow>
          map card_code (stocks_container t') = sorted_list_of_fset (watchlist t)) \<and>
       last_update_label t' = Some now'"
    unfolding Let_def using cont codes stamp by (simp add: cache fold_store_lookup)
qed

theorem success_replaces_display_witness:
  "[usd_rate] \<noteq> [] \<and>
   (let s' = update_ui_with_data 5 (Some [usd_rate]) setup_ui
    in tree s' = map tree_row [usd_rate] \<and> exchange_data s' = Some [usd_rate] \<and>
       last_update s' = Some 5 \<and> time_label s' = Some 5) \<and>
   watchlist two_stocks \<noteq> {||} \<and>
   map card_code (stocks_container (on_update_complete 7 two_results two_stocks)) =
     [ascii ''2317'', ascii ''2330''] \<and>
   last_update_label (on_update_complete 7 two_results two_stocks) = Some 7"
  using success_replaces_display [of "[usd_rate]" 5 setup_ui 7 two_results two_stocks]
  by (simp add: Let_def two_stocks_watchlist sorted_two card_code_create)

section \<open>The currency dropdown\<close>












section \<open>Invalid user input\<close>

lemma guess_out_of_range:
  assumes "int_of line = Some keyin" and "keyin < min_v g \<or> max_v g < keyin"
  shows "guess_loop int_of target g (line # rest) =
           guess_loop int_of target
             (g\<lparr>count := count g + 1,
                printed := printed g @ [PromptRange (min_v g) (max_v g), PrintRangeHint]\<rparr>) rest"
  using assms by (auto simp: take_turn_def Let_def say_def)

lemma guess_not_a_number:
  assumes "int_of line = None"
  shows "guess_loop int_of target g (line # rest) =
           (Some ValueError, g\<lparr>printed := printed g @ [PromptRange (min_v g) (max_v g)]\<rparr>, rest)"
    and "fst (main int_of randint (line # rest)) = Some ValueError"
  using assms by (simp_all add: main_def play_game_def say_def)

lemma calculate_conversion_cases:
  "(\<exists>d. calculate_conversion float_of now s = s\<lparr>dialogs := dialogs s @ [d]\<rparr>) \<or>
   (\<exists>v. calculate_conversion float_of now s = s\<lparr>result_label := v\<rparr>)"
  unfolding calculate_conversion_def messagebox_def Let_def
  by (auto split: option.splits sum.splits)

lemma ascii_int_500: "ascii_int (ascii ''500'') = Some 500" by code_simp
lemma ascii_int_abc: "ascii_int (ascii ''abc'') = None" by code_simp
lemma ascii_float_abc: "strip (ascii ''abc'') \<noteq> [] \<and> ascii_float (strip (ascii ''abc'')) = None" by code_simp

text \<open>
  Claim C7 as stated fails for a non-numeric entry in the guessing game: \<open>int\<close> raises
  \<open>ValueError\<close>, nothing catches it, and the process ends after the first prompt.
\<close>

theorem invalid_guess_crashes_counterexample:
  "ascii_int (ascii ''abc'') = None \<and>
   main ascii_int (\<lambda>n. 50) [ascii ''abc'', ascii ''50'', ascii ''n''] =
     (Some ValueError, [PrintTarget 50, PrintBanner, PromptRange 1 100])"
  by code_simp

text \<open>
  Claim C7, amended. In the guessing game a guess that is an integer outside the current
  range is counted, answered with the hint to stay within the range, and the prompt is
  repeated with the same bounds. A line that \<open>int\<close> does not accept is not handled: the
  \<open>ValueError\<close> leaves \<open>play_game\<close> and \<open>main\<close>. In the rate application an amount that
  \<open>float\<close> does not accept is answered with an error box and nothing else changes, and
  \<open>_calculate_conversion\<close> always returns, having shown one message box or set the
  result label.
\<close>

theorem invalid_input_handling:
  "(int_of line = Some keyin \<and> (keyin < min_v g \<or> max_v g < keyin) \<longrightarrow>
      guess_loop int_of target g (line # rest) =
        guess_loop int_of target
          (g\<lparr>count := count g + 1,
             printed := printed g @ [PromptRange (min_v g) (max_v g), PrintRangeHint]\<rparr>) rest) \<and>
   (int_of line' = None \<longrightarrow>
      guess_loop int_of target g (line' # rest) =
        (Some ValueError, g\<lparr>printed := printed g @ [PromptRange (min_v g) (max_v g)]\<rparr>, rest) \<and>
      fst (main int_of randint (line' # rest)) = Some ValueError) \<and>
   (strip (twd_entry s) \<noteq> [] \<and> float_of (strip (twd_entry s)) = None \<longrightarrow>
      calculate_conversion float_of now s = s\<lparr>dialogs := dialogs s @ [ShowError InvalidAmount]\<rparr>) \<and>
   ((\<exists>d. calculate_conversion float_of now s' = s'\<lparr>dialogs := dialogs s' @ [d]\<rparr>) \<or>
    (\<exists>v. calculate_conversion float_of now s' = s'\<lparr>result_label := v\<rparr>))"
proof (intro conjI impI)
  assume "int_of line = Some keyin \<and> (keyin < min_v g \<or> max_v g < keyin)"
  then show "guess_loop int_of target g (line # rest) =
        guess_loop int_of target
          (g\<lparr>count := count g + 1,
             printed := printed g @ [PromptRange (min_v g) (max_v g), PrintRangeHint]\<rparr>) rest"
    using guess_out_of_range by blast
next
  assume "int_of line' = None"
  then show "guess_loop int_of target g (line' # rest) =
        (Some ValueError, g\<lparr>printed := printed g @ [PromptRange (min_v g) (max_v g)]\<rparr>, rest)"
    by (rule guess_not_a_number)
next
  assume "int_of line' = None"
  then show "fst (main int_of randint (line' # rest)) = Some ValueError"
    by (rule guess_not_a_number)
next
  assume "strip (twd_entry s) \<noteq> [] \<and> float_of (strip (twd_entry s)) = None"
  then show "calculate_conversion float_of now s = s\<lparr>dialogs := dialogs s @ [ShowError InvalidAmount]\<rparr>"
    by (simp add: calculate_conversion_def messagebox_def)
next
  show "(\<exists>d. calculate_conversion float_of now s' = s'\<lparr>dialogs := dialogs s' @ [d]\<rparr>) \<or>
    (\<exists>v. calculate_conversion float_of now s' = s'\<lparr>result_label := v\<rparr>)"
    by (rule calculate_conversion_cases)
qed

theorem invalid_input_handling_witness:
  "ascii_int (ascii ''500'') = Some 500 \<and> ((500::int) < 1 \<or> (100::int) < 500) \<and>
   guess_loop ascii_int 50 \<lparr>min_v = 1, max_v = 100, count = 0, printed = []\<rparr> [ascii ''500'', ascii ''50''] =
     guess_loop ascii_int 50
       \<lparr>min_v = 1, max_v = 100, count = 1, printed = [PromptRange 1 100, PrintRangeHint]\<rparr> [ascii ''50''] \<and>
   ascii_int (ascii ''abc'') = None \<and>
   fst (main ascii_int (\<lambda>n. 50) [ascii ''abc'', ascii ''50'']) = Some ValueError \<and>
   strip (twd_entry (setup_ui\<lparr>twd_entry := ascii ''abc''\<rparr>)) \<noteq> [] \<and>
   ascii_float (strip (twd_entry (setup_ui\<lparr>twd_entry := ascii ''abc''\<rparr>))) = None \<and>
   calculate_conversion ascii_float 9 (setup_ui\<lparr>twd_entry := ascii ''abc''\<rparr>) =
     setup_ui\<lparr>twd_entry := ascii ''abc'', dialogs := [ShowError InvalidAmount]\<rparr>"
proof -
  have d: "dialogs setup_ui = []" by (simp add: setup_ui_def)
  show ?thesis
    using invalid_input_handling [of ascii_int "ascii ''500''" 500
        "\<lparr>min_v = 1, max_v = 100, count = 0, printed = []\<rparr>" 50 "[ascii ''50'']" "ascii ''abc''"
        "\<lambda>n. 50" "setup_ui\<lparr>twd_entry := ascii ''abc''\<rparr>" ascii_float 9]
      ascii_int_500 ascii_int_abc ascii_float_abc d
    by (simp del: guess_loop.simps)
qed


section \<open>The conversion\<close>

text \<open>
  The float model: \<open>ilog2\<close> is the binary exponent, \<open>round64\<close> is within half a unit
  in the last place of its argument, the overflow test is the comparison with
  \<open>2 powi 1024\<close>, and \<open>format_2f\<close> is within half a hundredth of the float.
\<close>

lemma round_half_even_near: "\<bar>of_int (round_half_even x) - x\<bar> \<le> 1 / 2"
proof -
  have "of_int \<lfloor>x\<rfloor> \<le> x" "x < of_int \<lfloor>x\<rfloor> + 1" by linarith+
  then show ?thesis
    by (auto simp: round_half_even_def Let_def abs_le_iff)
qed

lemma powi_two_pos: "0 < (2::rat) powi k"
  by (simp add: power_int_def)

lemma powi_nat: "0 \<le> k \<Longrightarrow> (2::rat) powi k = 2 ^ nat k"
  by (simp add: power_int_def)

lemma ilog2_bounds:
  assumes "0 < m"
  shows "2 powi (ilog2 m) \<le> m \<and> m < 2 powi (ilog2 m + 1)"
proof -
  obtain p q where pq: "quotient_of m = (p, q)" by (cases "quotient_of m")
  then have q: "0 < q" and m: "m = of_int p / of_int q"
    using quotient_of_denom_pos quotient_of_div by auto
  with assms have p: "0 < p" by (simp add: zero_less_divide_iff)
  let ?a = "bitlen p" and ?b = "bitlen q"
  have pa: "2 ^ nat (?a - 1) \<le> p" "p < 2 ^ nat ?a" using bitlen_bounds [OF p] by auto
  have qb: "2 ^ nat (?b - 1) \<le> q" "q < 2 ^ nat ?b" using bitlen_bounds [OF q] by auto
  have a1: "1 \<le> ?a" using p bitlen_nonneg [of p] bitlen_eq_zero_iff [of p] by linarith
  have b1: "1 \<le> ?b" using q bitlen_nonneg [of q] bitlen_eq_zero_iff [of q] by linarith
  have pr: "(2::rat) powi (?a - 1) \<le> of_int p" "of_int p < (2::rat) powi ?a"
  proof -
    have "(of_int (2 ^ nat (?a - 1)) :: rat) \<le> of_int p" using pa(1) by (simp only: of_int_le_iff)
    then show "(2::rat) powi (?a - 1) \<le> of_int p" using a1 by (simp add: powi_nat)
    have "(of_int p :: rat) < of_int (2 ^ nat ?a)" using pa(2) by (simp only: of_int_less_iff)
    then show "of_int p < (2::rat) powi ?a" using a1 by (simp add: powi_nat)
  qed
  have qr: "(2::rat) powi (?b - 1) \<le> of_int q" "of_int q < (2::rat) powi ?b"
  proof -
    have "(of_int (2 ^ nat (?b - 1)) :: rat) \<le> of_int q" using qb(1) by (simp only: of_int_le_iff)
    then show "(2::rat) powi (?b - 1) \<le> of_int q" using b1 by (simp add: powi_nat)
    have "(of_int q :: rat) < of_int (2 ^ nat ?b)" using qb(2) by (simp only: of_int_less_iff)
    then show "of_int q < (2::rat) powi ?b" using b1 by (simp add: powi_nat)
  qed
  have qpos: "(0::rat) < of_int q" using q by simp
  have lo: "2 powi (?a - ?b - 1) < m"
  proof -
    have "(2::rat) powi (?a - ?b - 1) * of_int q < 2 powi (?a - ?b - 1) * 2 powi ?b"
      using qr(2) powi_two_pos [of "?a - ?b - 1"] by (simp add: mult_strict_left_mono)
    also have "\<dots> = 2 powi (?a - 1)"
      by (simp add: power_int_add [symmetric])
    also have "\<dots> \<le> of_int p" by (rule pr(1))
    finally show ?thesis using qpos by (simp add: m pos_less_divide_eq)
  qed
  have hi: "m < 2 powi (?a - ?b + 1)"
  proof -
    have "of_int p < (2::rat) powi ?a" by (rule pr(2))
    also have "\<dots> = 2 powi (?a - ?b + 1) * 2 powi (?b - 1)"
      by (simp add: power_int_add [symmetric])
    also have "\<dots> \<le> 2 powi (?a - ?b + 1) * of_int q"
      using qr(1) powi_two_pos [of "?a - ?b + 1"] by (simp add: mult_left_mono)
    finally show ?thesis using qpos by (simp add: m pos_divide_less_eq)
  qed
  show ?thesis
  proof (cases "2 powi (?a - ?b) \<le> m")
    case True
    with pq hi show ?thesis by (simp add: ilog2_def)
  next
    case False
    with pq lo show ?thesis by (simp add: ilog2_def)
  qed
qed


lemma round64_near:
  assumes "0 < m" and "round64 m = Some r"
  shows "\<bar>r - m\<bar> \<le> 2 powi (max (ilog2 m) (- 1022) - 53)"
proof -
  let ?e = "max (ilog2 m) (- 1022)"
  let ?ulp = "(2::rat) powi (?e - 52)"
  have ulp: "0 < ?ulp" by (rule powi_two_pos)
  from assms have r: "r = of_int (round_half_even (m / ?ulp)) * ?ulp"
    by (simp add: round64_def Let_def split: if_splits)
  have "\<bar>r - m\<bar> = \<bar>of_int (round_half_even (m / ?ulp)) - m / ?ulp\<bar> * ?ulp"
  proof -
    have "r - m = (of_int (round_half_even (m / ?ulp)) - m / ?ulp) * ?ulp"
      using ulp by (simp add: r left_diff_distrib)
    then show ?thesis using ulp by (simp add: abs_mult)
  qed
  also have "\<dots> \<le> (1 / 2) * ?ulp"
    using round_half_even_near [of "m / ?ulp"] ulp by (simp only: mult_right_mono less_imp_le)
  also have "\<dots> = 2 powi (?e - 53)"
  proof -
    have "(2::rat) powi (?e - 53 + 1) = 2 powi (?e - 53) * 2 powi 1"
      by (rule power_int_add) simp
    then have "(2::rat) powi (?e - 52) = 2 powi (?e - 53) * 2" by simp
    then show ?thesis by simp
  qed
  finally show ?thesis .
qed

lemma round64_relative:
  assumes "0 < m" and "- 1022 \<le> ilog2 m" and "round64 m = Some r"
  shows "\<bar>r - m\<bar> \<le> m / 2 ^ 53"
proof -
  have "\<bar>r - m\<bar> \<le> 2 powi (ilog2 m - 53)"
    using round64_near [OF assms(1,3)] assms(2) by (simp add: max_def)
  also have "\<dots> = 2 powi (ilog2 m) / 2 ^ 53"
    by (simp add: power_int_diff)
  also have "\<dots> \<le> m / 2 ^ 53"
    using ilog2_bounds [OF assms(1)] by (simp add: divide_right_mono)
  finally show ?thesis .
qed

lemma format_2f_near:
  "format_2f (Finite sg m) = Decimal2 sg h \<Longrightarrow> \<bar>of_int h / 100 - m\<bar> \<le> 1 / 200"
proof -
  assume "format_2f (Finite sg m) = Decimal2 sg h"
  then have h: "h = round_half_even (100 * m)" by simp
  have "\<bar>of_int h - 100 * m\<bar> \<le> 1 / 2" unfolding h by (rule round_half_even_near)
  moreover have "of_int h / 100 - m = (of_int h - 100 * m) / 100" by simp
  ultimately show ?thesis by (simp only: abs_divide)
qed


lemma round64_overflow:
  assumes "0 < r"
  shows "1024 \<le> ilog2 r \<longleftrightarrow> 2 powi 1024 \<le> r"
proof
  assume "1024 \<le> ilog2 r"
  then have "(2::rat) powi 1024 \<le> 2 powi (ilog2 r)"
    by (rule power_int_increasing) simp
  with ilog2_bounds [OF assms] show "2 powi 1024 \<le> r" by linarith
next
  assume a: "2 powi 1024 \<le> r"
  show "1024 \<le> ilog2 r"
  proof (rule ccontr)
    assume "\<not> 1024 \<le> ilog2 r"
    then have "ilog2 r + 1 \<le> 1024" by simp
    then have "(2::rat) powi (ilog2 r + 1) \<le> 2 powi 1024"
      by (rule power_int_increasing) simp
    with ilog2_bounds [OF assms] a show False by linarith
  qed
qed


lemma float_div_finite:
  assumes "y \<noteq> 0" and "0 < x / y" and "- 1022 \<le> ilog2 (x / y)" and "round64 (x / y) = Some q"
  shows "float_div (Finite s1 x) (Finite s2 y) = Inr (Finite (s1 \<noteq> s2) q)"
    and "\<bar>q - x / y\<bar> \<le> (x / y) / 2 ^ 53"
    and "\<exists>h. format_2f (Finite (s1 \<noteq> s2) q) = Decimal2 (s1 \<noteq> s2) h \<and> \<bar>of_int h / 100 - q\<bar> \<le> 1 / 200"
proof -
  show "float_div (Finite s1 x) (Finite s2 y) = Inr (Finite (s1 \<noteq> s2) q)"
    using assms by simp
  show "\<bar>q - x / y\<bar> \<le> (x / y) / 2 ^ 53"
    using assms(2,3,4) by (rule round64_relative)
  show "\<exists>h. format_2f (Finite (s1 \<noteq> s2) q) = Decimal2 (s1 \<noteq> s2) h \<and> \<bar>of_int h / 100 - q\<bar> \<le> 1 / 200"
    using format_2f_near [of "s1 \<noteq> s2" q] by simp
qed

lemma calculate_conversion_result:
  assumes "strip (twd_entry s) \<noteq> []" and "float_of (strip (twd_entry s)) = Some twd_amount"
    and "\<not> float_le_zero twd_amount" and "currency_combo_text s \<noteq> []"
    and "find_rate_by_currency s (currency_combo_text s) = Some rate_data"
    and "rate_data k_buy = Some buy_text" and "float_of buy_text = Some buy_rate"
    and "rate_data k_sell = Some sell_text" and "float_of sell_text = Some sell_rate"
    and "float_div twd_amount buy_rate = Inr buy_result"
    and "float_div twd_amount sell_rate = Inr sell_result"
  shows "calculate_conversion float_of now s =
           s\<lparr>result_label := ResultText
               \<lparr>conv_amount = format_2f twd_amount,
                conv_currency = currency_combo_text s,
                conv_buy_rate = buy_rate,
                conv_buy_result = format_2f buy_result,
                conv_sell_rate = sell_rate,
                conv_sell_result = format_2f sell_result,
                conv_time = now\<rparr>\<rparr>"
  using assms by (simp add: calculate_conversion_def Let_def)

lemma converted_amount_metric:
  assumes "find (\<lambda>row. row_currency row = selected_currency) rates_df = Some currency_row"
    and "row_sell_value currency_row = Some sell_rate" and "float_truthy sell_rate"
    and "float_div twd_amount sell_rate = Inr converted"
  shows "converted_amount twd_amount rates_df selected_currency = Metric (format_2f converted) sell_rate"
  using assms by (simp add: converted_amount_def)

lemma example_quotient:
  "float_div (Finite False 1000) (Finite False (61 / 2)) =
     Inr (Finite False (4614343880502557 / 140737488355328))"
  by code_simp

lemma example_rounded:
  "format_2f (Finite False (4614343880502557 / 140737488355328)) = Decimal2 False 3279"
  by code_simp

text \<open>
  The rate application after a fetch that returned the one record for USD with buy rate
  30.1 and sell rate 30.5; the amount entry still holds the initial 1000.
\<close>

definition usd_shown :: exchange_app where
  "usd_shown = update_ui_with_data 5 (Some [usd_rate]) setup_ui"

lemma usd_shown_fields:
  "exchange_data usd_shown = Some [usd_rate]"
  "twd_entry usd_shown = ascii ''1000''"
  by (simp_all add: usd_shown_def update_ui_with_data_def Let_def update_treeview_def
      update_currency_combo_def hide_loading_def setup_ui_def)

lemma usd_shown_text: "currency_combo_text usd_shown = ascii ''USD''"
  unfolding usd_shown_def by code_simp

lemma usd_rate_fields:
  "usd_rate k_currency = Some (ascii ''USD'')"
  "usd_rate k_buy = Some (ascii ''30.1'')"
  "usd_rate k_sell = Some (ascii ''30.5'')"
  by code_simp+

lemma usd_shown_rate: "find_rate_by_currency usd_shown (ascii ''USD'') = Some usd_rate"
  by (simp add: find_rate_by_currency_def usd_shown_fields usd_rate_fields)

lemma parsed_texts:
  "strip (ascii ''1000'') \<noteq> []"
  "ascii_float (strip (ascii ''1000'')) = Some (Finite False 1000)"
  "ascii_float (ascii ''30.1'') = Some (Finite False (4236198399495373 / 140737488355328))"
  "ascii_float (ascii ''30.5'') = Some (Finite False (61 / 2))"
  "ascii ''USD'' \<noteq> []"
  by code_simp+

lemma example_buy_quotient:
  "float_div (Finite False 1000) (Finite False (4236198399495373 / 140737488355328)) =
     Inr (Finite False (4675664064961063 / 140737488355328))"
  by code_simp

lemma example_buy_rounded:
  "format_2f (Finite False (4675664064961063 / 140737488355328)) = Decimal2 False 3322"
  "format_2f (Finite False 1000) = Decimal2 False 100000"
  by code_simp+

lemma usd_row:
  "find (\<lambda>row. row_currency row = ascii ''USD'') (clean_rate_data ascii_float [usd_rate]) =
     Some \<lparr>row_currency = ascii ''USD'', row_buy = ascii ''30.1'', row_sell = ascii ''30.5'',
            row_buy_value = Some (Finite False (4236198399495373 / 140737488355328)),
            row_sell_value = Some (Finite False (61 / 2))\<rparr>"
  by code_simp

lemma example_in_range:
  "(61 / 2 :: rat) \<noteq> 0" "(0::rat) < 1000 / (61 / 2)" "- 1022 \<le> ilog2 (1000 / (61 / 2))"
  "round64 (1000 / (61 / 2)) = Some (4614343880502557 / 140737488355328)"
  by code_simp+

text \<open>
  Claim C9. The conversion divides the amount by the rate as floats and shows the
  quotient rounded to two decimals. In the rate application, when the amount and the two
  rates of the selected currency are accepted by \<open>float\<close>, the amount is positive and no
  rate is zero, the result label holds \<open>format_2f\<close> of the two quotients; the dashboard
  shows \<open>format_2f\<close> of the quotient by the sell value. For finite operands with a
  quotient in the normal range the float quotient is the exact quotient rounded to
  binary64 (relative error at most \<open>2\<close> to the \<open>-53\<close>), and the text is within half a
  hundredth of it. 1000 at the sell rate 30.5 is shown as 32.79.
\<close>

theorem conversion_two_decimals:
  "(strip (twd_entry s) \<noteq> [] \<and> float_of (strip (twd_entry s)) = Some twd_amount \<and>
    \<not> float_le_zero twd_amount \<and> currency_combo_text s \<noteq> [] \<and>
    find_rate_by_currency s (currency_combo_text s) = Some rate_data \<and>
    rate_data k_buy = Some buy_text \<and> float_of buy_text = Some buy_rate \<and>
    rate_data k_sell = Some sell_text \<and> float_of sell_text = Some sell_rate \<and>
    float_div twd_amount buy_rate = Inr buy_result \<and>
    float_div twd_amount sell_rate = Inr sell_result \<longrightarrow>
      calculate_conversion float_of now s =
        s\<lparr>result_label := ResultText
            \<lparr>conv_amount = format_2f twd_amount,
             conv_currency = currency_combo_text s,
             conv_buy_rate = buy_rate,
             conv_buy_result = format_2f buy_result,
             conv_sell_rate = sell_rate,
             conv_sell_result = format_2f sell_result,
             conv_time = now\<rparr>\<rparr>) \<and>
   (find (\<lambda>row. row_currency row = selected_currency) rates_df = Some currency_row \<and>
    row_sell_value currency_row = Some rate \<and> float_truthy rate \<and>
    float_div amount rate = Inr converted \<longrightarrow>
      converted_amount amount rates_df selected_currency = Metric (format_2f converted) rate) \<and>
   (y \<noteq> 0 \<and> 0 < x / y \<and> - 1022 \<le> ilog2 (x / y) \<and> round64 (x / y) = Some q \<longrightarrow>
      float_div (Finite s1 x) (Finite s2 y) = Inr (Finite (s1 \<noteq> s2) q) \<and>
      \<bar>q - x / y\<bar> \<le> (x / y) / 2 ^ 53 \<and>
      (\<exists>h. format_2f (Finite (s1 \<noteq> s2) q) = Decimal2 (s1 \<noteq> s2) h \<and>
           \<bar>of_int h / 100 - q\<bar> \<le> 1 / 200)) \<and>
   float_div (Finite False 1000) (Finite False (61 / 2)) =
     Inr (Finite False (4614343880502557 / 140737488355328)) \<and>
   format_2f (Finite False (4614343880502557 / 140737488355328)) = Decimal2 False 3279"
proof (intro conjI impI)
  assume "strip (twd_entry s) \<noteq> [] \<and> float_of (strip (twd_entry s)) = Some twd_amount \<and>
    \<not> float_le_zero twd_amount \<and> currency_combo_text s \<noteq> [] \<and>
    find_rate_by_currency s (currency_combo_text s) = Some rate_data \<and>
    rate_data k_buy = Some buy_text \<and> float_of buy_text = Some buy_rate \<and>
    rate_data k_sell = Some sell_text \<and> float_of sell_text = Some sell_rate \<and>
    float_div twd_amount buy_rate = Inr buy_result \<and>
    float_div twd_amount sell_rate = Inr sell_result"
  then show "calculate_conversion float_of now s =
        s\<lparr>result_label := ResultText
            \<lparr>conv_amount = format_2f twd_amount,
             conv_currency = currency_combo_text s,
             conv_buy_rate = buy_rate,
             conv_buy_result = format_2f buy_result,
             conv_sell_rate = sell_rate,
             conv_sell_result = format_2f sell_result,
             conv_time = now\<rparr>\<rparr>"
    using calculate_conversion_result by blast
next
  assume "find (\<lambda>row. row_currency row = selected_currency) rates_df = Some currency_row \<and>
    row_sell_value currency_row = Some rate \<and> float_truthy rate \<and>
    float_div amount rate = Inr converted"
  then show "converted_amount amount rates_df selected_currency = Metric (format_2f converted) rate"
    using converted_amount_metric by blast
next
  assume a: "y \<noteq> 0 \<and> 0 < x / y \<and> - 1022 \<le> ilog2 (x / y) \<and> round64 (x / y) = Some q"
  then show "float_div (Finite s1 x) (Finite s2 y) = Inr (Finite (s1 \<noteq> s2) q)"
    using float_div_finite(1) by blast
  from a show "\<bar>q - x / y\<bar> \<le> (x / y) / 2 ^ 53"
    using float_div_finite(2) by blast
  from a show "\<exists>h. format_2f (Finite (s1 \<noteq> s2) q) = Decimal2 (s1 \<noteq> s2) h \<and>
           \<bar>of_int h / 100 - q\<bar> \<le> 1 / 200"
    using float_div_finite(3) by blast
next
  show "float_div (Finite False 1000) (Finite False (61 / 2)) =
     Inr (Finite False (4614343880502557 / 140737488355328))"
    by (rule example_quotient)
next
  show "format_2f (Finite False (4614343880502557 / 140737488355328)) = Decimal2 False 3279"
    by (rule example_rounded)
qed

theorem conversion_two_decimals_witness:
  "(strip (twd_entry usd_shown) \<noteq> [] \<and>
    ascii_float (strip (twd_entry usd_shown)) = Some (Finite False 1000) \<and>
    \<not> float_le_zero (Finite False 1000) \<and> currency_combo_text usd_shown \<noteq> [] \<and>
    find_rate_by_currency usd_shown (currency_combo_text usd_shown) = Some usd_rate \<and>
    usd_rate k_buy = Some (ascii ''30.1'') \<and>
    ascii_float (ascii ''30.1'') = Some (Finite False (4236198399495373 / 140737488355328)) \<and>
    usd_rate k_sell = Some (ascii ''30.5'') \<and>
    ascii_float (ascii ''30.5'') = Some (Finite False (61 / 2)) \<and>
    float_div (Finite False 1000) (Finite False (4236198399495373 / 140737488355328)) =
      Inr (Finite False (4675664064961063 / 140737488355328)) \<and>
    float_div (Finite False 1000) (Finite False (61 / 2)) =
      Inr (Finite False (4614343880502557 / 140737488355328))) \<and>
   calculate_conversion ascii_float 9 usd_shown =
     usd_shown\<lparr>result_label := ResultText
        \<lparr>conv_amount = Decimal2 False 100000,
         conv_currency = ascii ''USD'',
         conv_buy_rate = Finite False (4236198399495373 / 140737488355328),
         conv_buy_result = Decimal2 False 3322,
         conv_sell_rate = Finite False (61 / 2),
         conv_sell_result = Decimal2 False 3279,
         conv_time = 9\<rparr>\<rparr> \<and>
   converted_amount (Finite False 1000) (clean_rate_data ascii_float [usd_rate]) (ascii ''USD'') =
     Metric (Decimal2 False 3279) (Finite False (61 / 2)) \<and>
   ((61 / 2 :: rat) \<noteq> 0 \<and> (0::rat) < 1000 / (61 / 2) \<and> - 1022 \<le> ilog2 (1000 / (61 / 2)) \<and>
    round64 (1000 / (61 / 2)) = Some (4614343880502557 / 140737488355328)) \<and>
   \<bar>4614343880502557 / 140737488355328 - 1000 / (61 / 2)\<bar> \<le> (1000 / (61 / 2) :: rat) / 2 ^ 53"
proof -
  note t = conversion_two_decimals [of usd_shown ascii_float "Finite False 1000" usd_rate
      "ascii ''30.1''" "Finite False (4236198399495373 / 140737488355328)"
      "ascii ''30.5''" "Finite False (61 / 2)"
      "Finite False (4675664064961063 / 140737488355328)"
      "Finite False (4614343880502557 / 140737488355328)" 9
      "ascii ''USD''" "clean_rate_data ascii_float [usd_rate]"
      "\<lparr>row_currency = ascii ''USD'', row_buy = ascii ''30.1'', row_sell = ascii ''30.5'',
            row_buy_value = Some (Finite False (4236198399495373 / 140737488355328)),
            row_sell_value = Some (Finite False (61 / 2))\<rparr>"
      "Finite False (61 / 2)" "Finite False 1000" "Finite False (4614343880502557 / 140737488355328)"
      "61 / 2" 1000 "4614343880502557 / 140737488355328" False False]
  have h1: "strip (twd_entry usd_shown) \<noteq> [] \<and>
    ascii_float (strip (twd_entry usd_shown)) = Some (Finite False 1000) \<and>
    \<not> float_le_zero (Finite False 1000) \<and> currency_combo_text usd_shown \<noteq> [] \<and>
    find_rate_by_currency usd_shown (currency_combo_text usd_shown) = Some usd_rate \<and>
    usd_rate k_buy = Some (ascii ''30.1'') \<and>
    ascii_float (ascii ''30.1'') = Some (Finite False (4236198399495373 / 140737488355328)) \<and>
    usd_rate k_sell = Some (ascii ''30.5'') \<and>
    ascii_float (ascii ''30.5'') = Some (Finite False (61 / 2)) \<and>
    float_div (Finite False 1000) (Finite False (4236198399495373 / 140737488355328)) =
      Inr (Finite False (4675664064961063 / 140737488355328)) \<and>
    float_div (Finite False 1000) (Finite False (61 / 2)) =
      Inr (Finite False (4614343880502557 / 140737488355328))"
    using parsed_texts usd_rate_fields usd_shown_rate example_buy_quotient example_quotient
    by (simp add: usd_shown_fields usd_shown_text)
  have h2: "find (\<lambda>row. row_currency row = ascii ''USD'') (clean_rate_data ascii_float [usd_rate]) =
      Some \<lparr>row_currency = ascii ''USD'', row_buy = ascii ''30.1'', row_sell = ascii ''30.5'',
            row_buy_value = Some (Finite False (4236198399495373 / 140737488355328)),
            row_sell_value = Some (Finite False (61 / 2))\<rparr> \<and>
    row_sell_value \<lparr>row_currency = ascii ''USD'', row_buy = ascii ''30.1'', row_sell = ascii ''30.5'',
            row_buy_value = Some (Finite False (4236198399495373 / 140737488355328)),
            row_sell_value = Some (Finite False (61 / 2))\<rparr> = Some (Finite False (61 / 2)) \<and>
    float_truthy (Finite False (61 / 2)) \<and>
    float_div (Finite False 1000) (Finite False (61 / 2)) =
      Inr (Finite False (4614343880502557 / 140737488355328))"
    using usd_row example_quotient by simp
  have h3: "(61 / 2 :: rat) \<noteq> 0 \<and> (0::rat) < 1000 / (61 / 2) \<and> - 1022 \<le> ilog2 (1000 / (61 / 2)) \<and>
    round64 (1000 / (61 / 2)) = Some (4614343880502557 / 140737488355328)"
    using example_in_range by blast
  from t h1 have c1: "calculate_conversion ascii_float 9 usd_shown =
        usd_shown\<lparr>result_label := ResultText
            \<lparr>conv_amount = format_2f (Finite False 1000),
             conv_currency = currency_combo_text usd_shown,
             conv_buy_rate = Finite False (4236198399495373 / 140737488355328),
             conv_buy_result = format_2f (Finite False (4675664064961063 / 140737488355328)),
             conv_sell_rate = Finite False (61 / 2),
             conv_sell_result = format_2f (Finite False (4614343880502557 / 140737488355328)),
             conv_time = 9\<rparr>\<rparr>"
    by blast
  from t h2 have c2: "converted_amount (Finite False 1000) (clean_rate_data ascii_float [usd_rate]) (ascii ''USD'') =
     Metric (format_2f (Finite False (4614343880502557 / 140737488355328))) (Finite False (61 / 2))"
    by blast
  from t h3 have c3: "\<bar>4614343880502557 / 140737488355328 - 1000 / (61 / 2)\<bar> \<le> (1000 / (61 / 2) :: rat) / 2 ^ 53"
    by blast
  show ?thesis
    using h1 h3 c1 c2 c3
    by (simp only: example_rounded example_buy_rounded usd_shown_text) simp
qed


end
